theory Spec2Isabelle
  imports Main "HOL-Library.Sublist"
begin

section \<open>JavaScript values the handlers work on\<close>

text \<open>
  Strings are lists of characters; \<open>length\<close> is JavaScript's \<open>.length\<close> and
  \<open>take n\<close> is \<open>.substring(0, n)\<close>. Header names and media types are ASCII
  (RFC 5322, RFC 2045), so \<open>toLowerCase\<close> is modelled on the ASCII letters.
\<close>

definition lower_char :: "char \<Rightarrow> char" where
  "lower_char c =
     (let n = (of_char c :: nat) in if 65 \<le> n \<and> n \<le> 90 then char_of (n + 32) else c)"

definition toLowerCase :: "string \<Rightarrow> string" where
  "toLowerCase s = map lower_char s"

definition is_digit :: "char \<Rightarrow> bool" where
  "is_digit c = (let n = (of_char c :: nat) in 48 \<le> n \<and> n \<le> 57)"

text \<open>\<open>/^\d+$/.test(s)\<close>: one or more decimal digits and nothing else.\<close>

definition all_digits :: "string \<Rightarrow> bool" where
  "all_digits s = (s \<noteq> [] \<and> list_all is_digit s)"

text \<open>
  An optional string field (\<open>data?: string | null\<close>) is \<open>None\<close> when it is
  undefined or null. In a condition JavaScript takes it as true exactly when it is a
  non-empty string.
\<close>

definition truthy :: "string option \<Rightarrow> bool" where
  "truthy x = (case x of None \<Rightarrow> False | Some s \<Rightarrow> s \<noteq> [])"

text \<open>\<open>x || ''\<close> on an optional string.\<close>

definition or_empty :: "string option \<Rightarrow> string" where
  "or_empty x = (case x of None \<Rightarrow> [] | Some s \<Rightarrow> s)"

text \<open>
  \<open>historyId: string | number\<close>. All the code does with it is \<open>String(historyId)\<close>
  and storing it unchanged, so a number is carried by the decimal text that
  \<open>String\<close> gives it.
\<close>

datatype history_id = HString string | HNumber string

fun String_of :: "history_id \<Rightarrow> string" where
  "String_of (HString s) = s"
| "String_of (HNumber s) = s"

fun digit_char :: "nat \<Rightarrow> char" where
  "digit_char n = char_of (48 + n mod 10)"

fun show_nat :: "nat \<Rightarrow> string" where
  "show_nat n = (if n < 10 then [digit_char n] else show_nat (n div 10) @ [digit_char (n mod 10)])"

declare show_nat.simps [simp del]

section \<open>The Gmail message and the record extracted from it\<close>

text \<open>
  \<open>interface GmailMessage\<close> of \<open>app/api/gmail/webhook/route.ts\<close>.
  \<open>body_data\<close> is \<open>payload.body?.data\<close> and \<open>part_data\<close> is
  \<open>part.body?.data\<close>: the code reads both only through the optional chain.
\<close>

record Header =
  h_name :: string
  h_value :: string

record Part =
  mimeType :: string
  part_data :: "string option"

record Payload =
  headers :: "Header list option"
  body_data :: "string option"
  parts :: "Part list option"

record GmailMessage =
  msg_id :: "string option"
  msg_threadId :: "string option"
  payload :: "Payload option"
  msg_snippet :: "string option"

text \<open>\<open>interface EmailDetails\<close>; \<open>body?: string\<close> is an optional field.\<close>

record EmailDetails =
  id' :: string
  threadId :: string
  subject :: string
  from' :: string
  to' :: string
  date :: string
  snippet :: string
  body :: "string option"

text \<open>
  What the handlers take from the JavaScript runtime rather than from this repository:
  \<open>Buffer.from(s, 'base64').toString('utf-8')\<close>, \<open>JSON.parse\<close> of the notification
  (a syntax error, the value \<open>null\<close>, or an object with the two fields) and
  \<open>new Date(ms).toISOString()\<close>.
\<close>

datatype exn = SyntaxError | TypeError | NetworkError | WrongType | ProviderError

record GmailNotification =
  emailAddress :: string
  historyId' :: history_id

record runtime =
  b64utf8 :: "string \<Rightarrow> string"
  json_parse :: "string \<Rightarrow> exn + GmailNotification option"
  toISOString :: "nat \<Rightarrow> string"

text \<open>\<open>headers.find(h => h.name.toLowerCase() === name.toLowerCase())?.value || ''\<close>\<close>

definition getHeader :: "Header list \<Rightarrow> string \<Rightarrow> string" where
  "getHeader hs name =
     (case find (\<lambda>h. toLowerCase (h_name h) = toLowerCase name) hs of
        None \<Rightarrow> []
      | Some h \<Rightarrow> h_value h)"

text \<open>The \<open>let body = ''; if ... else if ...\<close> block of \<open>extractEmailDetails\<close>.\<close>

definition extract_body :: "runtime \<Rightarrow> GmailMessage \<Rightarrow> string" where
  "extract_body rt m =
     (case payload m of
        None \<Rightarrow> []
      | Some p \<Rightarrow>
          if truthy (body_data p) then b64utf8 rt (or_empty (body_data p))
          else (case parts p of
                  None \<Rightarrow> []
                | Some ps \<Rightarrow>
                    (case find (\<lambda>q. mimeType q = ''text/plain'') ps of
                       None \<Rightarrow> []
                     | Some textPart \<Rightarrow>
                         if truthy (part_data textPart)
                         then b64utf8 rt (or_empty (part_data textPart)) else [])))"

definition extractEmailDetails :: "runtime \<Rightarrow> GmailMessage \<Rightarrow> EmailDetails" where
  "extractEmailDetails rt m =
     (let hs = (case payload m of None \<Rightarrow> [] | Some p \<Rightarrow>
                  (case headers p of None \<Rightarrow> [] | Some l \<Rightarrow> l))
      in \<lparr> id' = or_empty (msg_id m),
           threadId = or_empty (msg_threadId m),
           subject = getHeader hs ''Subject'',
           from' = getHeader hs ''From'',
           to' = getHeader hs ''To'',
           date = getHeader hs ''Date'',
           snippet = or_empty (msg_snippet m),
           body = Some (take 1000 (extract_body rt m)) \<rparr>)"

text \<open>\<open>interface StoredEmail\<close> of \<open>lib/email-store-kv.ts\<close>.\<close>

record StoredEmail = EmailDetails +
  receivedAt :: string
  historyId :: history_id

section \<open>The Redis backend\<close>

text \<open>
  The store talks to one Redis keyspace. A key holds a list (\<open>LPUSH\<close>) or a JSON
  value (\<open>SET\<close>), with an optional expiry time in milliseconds; a key whose expiry
  time has been reached is gone. A command against a key of the other kind fails with
  \<open>WRONGTYPE\<close>. The commands follow the Redis command reference.
\<close>

datatype json = JEmail StoredEmail | JText string

datatype rval = RList "StoredEmail list" | RJson json

type_synonym keyspace = "string \<rightharpoonup> rval \<times> nat option"

text \<open>
  The provider's answers: \<open>history.data.history\<close> is an optional array whose
  entries have an optional \<open>messagesAdded\<close> array of optional message ids;
  \<open>messageList.data.messages\<close> is an optional array of optional ids.
\<close>

type_synonym history_record = "string option list option"

datatype gcall =
    CallHistoryList string "exn + history_record list option"
  | CallMessagesList "exn + string option list option"
  | CallMessagesGet string "exn + GmailMessage"

text \<open>
  The Gmail client that \<open>getGmailClient()\<close> returns. What a call answers may depend
  on every call made before it (newest first).
\<close>

record gmail =
  history_list :: "gcall list \<Rightarrow> string \<Rightarrow> exn + history_record list option"
  messages_list :: "gcall list \<Rightarrow> exn + string option list option"
  messages_get :: "gcall list \<Rightarrow> string \<Rightarrow> exn + GmailMessage"

text \<open>
  The world outside the handlers: the keyspace, the clock (milliseconds; it stands
  still during one handler call), the transport faults that the coming Redis commands
  will meet (\<open>True\<close>: the command fails before it reaches the server), and the log
  of the provider calls made so far, newest first.
\<close>

record world =
  db :: keyspace
  clock :: nat
  faults :: "bool list"
  glog :: "gcall list"

type_synonym 'a io = "world \<Rightarrow> (exn + 'a) \<times> world"

definition return_io :: "'a \<Rightarrow> 'a io" where
  "return_io x w = (Inr x, w)"

definition bind_io :: "'a io \<Rightarrow> ('a \<Rightarrow> 'b io) \<Rightarrow> 'b io" where
  "bind_io m f w = (case m w of (Inl e, w') \<Rightarrow> (Inl e, w') | (Inr x, w') \<Rightarrow> f x w')"

text \<open>\<open>try { m } catch (error) { h error }\<close>\<close>

definition try_catch :: "'a io \<Rightarrow> (exn \<Rightarrow> 'a io) \<Rightarrow> 'a io" where
  "try_catch m h w = (case m w of (Inl e, w') \<Rightarrow> h e w' | (Inr x, w') \<Rightarrow> (Inr x, w'))"

definition live :: "world \<Rightarrow> string \<Rightarrow> (rval \<times> nat option) option" where
  "live w k =
     (case db w k of
        None \<Rightarrow> None
      | Some (v, None) \<Rightarrow> Some (v, None)
      | Some (v, Some t) \<Rightarrow> if t \<le> clock w then None else Some (v, Some t))"

definition redis_call :: "'a io \<Rightarrow> 'a io" where
  "redis_call cmd w =
     (case faults w of
        [] \<Rightarrow> cmd w
      | f # fs \<Rightarrow>
          if f then (Inl NetworkError, w\<lparr>faults := fs\<rparr>) else cmd (w\<lparr>faults := fs\<rparr>))"

text \<open>
  The range of \<open>LRANGE\<close> and \<open>LTRIM\<close>: a negative index counts from the end of
  the list, and the range is clipped to the list.
\<close>

definition lrange_list :: "'a list \<Rightarrow> int \<Rightarrow> int \<Rightarrow> 'a list" where
  "lrange_list xs start stop =
     (let n = int (length xs);
          s0 = (if start < 0 then n + start else start);
          e0 = (if stop < 0 then n + stop else stop);
          s = (if s0 < 0 then 0 else s0)
      in if s > e0 \<or> s \<ge> n then []
         else (let e = (if e0 \<ge> n then n - 1 else e0)
               in take (nat (e - s + 1)) (drop (nat s) xs)))"

definition redis_lpush :: "string \<Rightarrow> StoredEmail \<Rightarrow> nat io" where
  "redis_lpush k x =
     redis_call (\<lambda>w.
       case live w k of
         None \<Rightarrow> (Inr 1, w\<lparr>db := (db w)(k \<mapsto> (RList [x], None))\<rparr>)
       | Some (RList xs, e) \<Rightarrow>
           (Inr (length xs + 1), w\<lparr>db := (db w)(k \<mapsto> (RList (x # xs), e))\<rparr>)
       | Some (RJson j, e) \<Rightarrow> (Inl WrongType, w))"

definition redis_ltrim :: "string \<Rightarrow> int \<Rightarrow> int \<Rightarrow> unit io" where
  "redis_ltrim k start stop =
     redis_call (\<lambda>w.
       case live w k of
         None \<Rightarrow> (Inr (), w)
       | Some (RList xs, e) \<Rightarrow>
           (let ys = lrange_list xs start stop
            in (Inr (), w\<lparr>db := (if ys = [] then (db w)(k := None)
                                    else (db w)(k \<mapsto> (RList ys, e)))\<rparr>))
       | Some (RJson j, e) \<Rightarrow> (Inl WrongType, w))"

definition redis_lrange :: "string \<Rightarrow> int \<Rightarrow> int \<Rightarrow> StoredEmail list io" where
  "redis_lrange k start stop =
     redis_call (\<lambda>w.
       case live w k of
         None \<Rightarrow> (Inr [], w)
       | Some (RList xs, e) \<Rightarrow> (Inr (lrange_list xs start stop), w)
       | Some (RJson j, e) \<Rightarrow> (Inl WrongType, w))"

definition redis_llen :: "string \<Rightarrow> nat io" where
  "redis_llen k =
     redis_call (\<lambda>w.
       case live w k of
         None \<Rightarrow> (Inr 0, w)
       | Some (RList xs, e) \<Rightarrow> (Inr (length xs), w)
       | Some (RJson j, e) \<Rightarrow> (Inl WrongType, w))"

text \<open>\<open>redis.set(k, v, { ex: seconds })\<close>\<close>

definition redis_set_ex :: "string \<Rightarrow> json \<Rightarrow> nat \<Rightarrow> unit io" where
  "redis_set_ex k v seconds =
     redis_call (\<lambda>w.
       (Inr (), w\<lparr>db := (db w)(k \<mapsto> (RJson v, Some (clock w + seconds * 1000)))\<rparr>))"

definition redis_get :: "string \<Rightarrow> json option io" where
  "redis_get k =
     redis_call (\<lambda>w.
       case live w k of
         None \<Rightarrow> (Inr None, w)
       | Some (RJson j, e) \<Rightarrow> (Inr (Some j), w)
       | Some (RList xs, e) \<Rightarrow> (Inl WrongType, w))"

definition redis_del :: "string \<Rightarrow> unit io" where
  "redis_del k = redis_call (\<lambda>w. (Inr (), w\<lparr>db := (db w)(k := None)\<rparr>))"

text \<open>A pipeline of \<open>DEL\<close> commands, sent as one request by \<open>pipeline.exec()\<close>.\<close>

definition redis_pipeline_del :: "string list \<Rightarrow> unit io" where
  "redis_pipeline_del ks =
     redis_call (\<lambda>w. (Inr (), w\<lparr>db := fold (\<lambda>k m. m(k := None)) ks (db w)\<rparr>))"

section \<open>The store: \<open>class UpstashEmailStore\<close>\<close>

definition emailsKey :: string where
  "emailsKey = ''gmail:emails''"

definition maxEmails :: nat where
  "maxEmails = 100"

definition email_key :: "string \<Rightarrow> string" where
  "email_key i = ''gmail:email:'' @ i"

definition statsKey :: string where
  "statsKey = ''gmail:stats:lastReceived''"

text \<open>\<open>60 * 60 * 24 * 30\<close> seconds.\<close>

definition ttl_seconds :: nat where
  "ttl_seconds = 60 * 60 * 24 * 30"

definition updateStats :: "runtime \<Rightarrow> unit io" where
  "updateStats rt w = redis_set_ex statsKey (JText (toISOString rt (clock w))) ttl_seconds w"

definition addEmail :: "runtime \<Rightarrow> StoredEmail \<Rightarrow> bool io" where
  "addEmail rt email =
     try_catch
       (bind_io (redis_lpush emailsKey email) (\<lambda>_.
        bind_io (redis_ltrim emailsKey 0 (int maxEmails - 1)) (\<lambda>_.
        bind_io (redis_set_ex (email_key (id' email)) (JEmail email) ttl_seconds) (\<lambda>_.
        bind_io (updateStats rt) (\<lambda>_.
        return_io True)))))
       (\<lambda>error. return_io False)"

definition getEmails :: "int \<Rightarrow> StoredEmail list io" where
  "getEmails limit =
     try_catch (redis_lrange emailsKey 0 (limit - 1)) (\<lambda>error. return_io [])"

definition getEmail :: "string \<Rightarrow> json option io" where
  "getEmail i = try_catch (redis_get (email_key i)) (\<lambda>error. return_io None)"

record stats =
  totalEmails :: nat
  newestEmail :: "string option"
  oldestEmail :: "string option"
  lastReceived :: "json option"

definition first_date :: "StoredEmail list \<Rightarrow> string option" where
  "first_date es = (case es of [] \<Rightarrow> None | e # _ \<Rightarrow> Some (date e))"

definition getStats :: "stats io" where
  "getStats =
     try_catch
       (bind_io (redis_llen emailsKey) (\<lambda>total.
        bind_io (redis_get statsKey) (\<lambda>lastRcv.
        bind_io (redis_lrange emailsKey 0 0) (\<lambda>emails.
        bind_io (redis_lrange emailsKey (- 1) (- 1)) (\<lambda>oldestEmails.
        return_io \<lparr> totalEmails = total, newestEmail = first_date emails,
                    oldestEmail = first_date oldestEmails, lastReceived = lastRcv \<rparr>)))))
       (\<lambda>error. return_io \<lparr> totalEmails = 0, newestEmail = None,
                               oldestEmail = None, lastReceived = None \<rparr>)"

definition clear :: "bool io" where
  "clear =
     try_catch
       (bind_io (redis_lrange emailsKey 0 (- 1)) (\<lambda>emails.
        bind_io (if emails \<noteq> []
                 then redis_pipeline_del (map (\<lambda>email. email_key (id' email)) emails)
                 else return_io ()) (\<lambda>_.
        bind_io (redis_del emailsKey) (\<lambda>_.
        bind_io (redis_del statsKey) (\<lambda>_.
        return_io True)))))
       (\<lambda>error. return_io False)"

section \<open>Reconciliation: \<open>fetchNewEmails\<close>\<close>

text \<open>A provider call answers from the client and is written to the log.\<close>

definition gmail_history_list :: "gmail \<Rightarrow> string \<Rightarrow> history_record list option io" where
  "gmail_history_list gm startHistoryId w =
     (let r = history_list gm (glog w) startHistoryId
      in (r, w\<lparr>glog := CallHistoryList startHistoryId r # glog w\<rparr>))"

definition gmail_messages_list :: "gmail \<Rightarrow> string option list option io" where
  "gmail_messages_list gm w =
     (let r = messages_list gm (glog w) in (r, w\<lparr>glog := CallMessagesList r # glog w\<rparr>))"

definition gmail_messages_get :: "gmail \<Rightarrow> string \<Rightarrow> GmailMessage io" where
  "gmail_messages_get gm messageId w =
     (let r = messages_get gm (glog w) messageId
      in (r, w\<lparr>glog := CallMessagesGet messageId r # glog w\<rparr>))"

text \<open>
  The \<open>try\<close> block fills the array \<open>emails\<close>, which is declared before it, and
  the \<open>catch\<close> block returns that array. So the loops return the exception that
  stopped them, if any, together with the array as it stands.

  \<open>for (const added of record.messagesAdded)\<close>:
\<close>

fun fetch_added ::
  "runtime \<Rightarrow> gmail \<Rightarrow> string option list \<Rightarrow> EmailDetails list \<Rightarrow> world
     \<Rightarrow> exn option \<times> EmailDetails list \<times> world" where
  "fetch_added rt gm [] emails w = (None, emails, w)"
| "fetch_added rt gm (added # rest) emails w =
     (if \<not> truthy added then fetch_added rt gm rest emails w
      else (case gmail_messages_get gm (or_empty added) w of
              (Inl e, w') \<Rightarrow> (Some e, emails, w')
            | (Inr message, w') \<Rightarrow>
                fetch_added rt gm rest (emails @ [extractEmailDetails rt message]) w'))"

text \<open>\<open>for (const record of history.data.history)\<close>:\<close>

fun fetch_history ::
  "runtime \<Rightarrow> gmail \<Rightarrow> history_record list \<Rightarrow> EmailDetails list \<Rightarrow> world
     \<Rightarrow> exn option \<times> EmailDetails list \<times> world" where
  "fetch_history rt gm [] emails w = (None, emails, w)"
| "fetch_history rt gm (r # rest) emails w =
     (case r of
        None \<Rightarrow> fetch_history rt gm rest emails w
      | Some messagesAdded \<Rightarrow>
          (case fetch_added rt gm messagesAdded emails w of
             (Some e, emails', w') \<Rightarrow> (Some e, emails', w')
           | (None, emails', w') \<Rightarrow> fetch_history rt gm rest emails' w'))"

text \<open>The fallback: the most recent unread message of the inbox.\<close>

definition fetch_latest ::
  "runtime \<Rightarrow> gmail \<Rightarrow> world \<Rightarrow> exn option \<times> EmailDetails list \<times> world" where
  "fetch_latest rt gm w =
     (case gmail_messages_list gm w of
        (Inl e, w') \<Rightarrow> (Some e, [], w')
      | (Inr messages, w') \<Rightarrow>
          (case messages of
             Some (first # others) \<Rightarrow>
               if truthy first
               then (case gmail_messages_get gm (or_empty first) w' of
                       (Inl e, w'') \<Rightarrow> (Some e, [], w'')
                     | (Inr message, w'') \<Rightarrow> (None, [extractEmailDetails rt message], w''))
               else (None, [], w')
           | _ \<Rightarrow> (None, [], w')))"

text \<open>The \<open>try\<close> block of \<open>fetchNewEmails\<close>.\<close>

definition fetch_try ::
  "runtime \<Rightarrow> gmail \<Rightarrow> history_id \<Rightarrow> world \<Rightarrow> exn option \<times> EmailDetails list \<times> world" where
  "fetch_try rt gm hid w =
     (let historyIdStr = String_of hid
      in if \<not> all_digits historyIdStr then (None, [], w)
         else (case gmail_history_list gm historyIdStr w of
                 (Inl e, w') \<Rightarrow> (Some e, [], w')
               | (Inr history, w') \<Rightarrow>
                   (case history of
                      None \<Rightarrow> fetch_latest rt gm w'
                    | Some [] \<Rightarrow> fetch_latest rt gm w'
                    | Some records \<Rightarrow> fetch_history rt gm records [] w')))"

text \<open>
  Both the \<open>try\<close> block and the \<open>catch\<close> block end in \<open>return emails\<close>.
  \<open>getGmailClient()\<close> only builds the client object and calls nothing.
\<close>

definition fetchNewEmails :: "runtime \<Rightarrow> gmail \<Rightarrow> history_id \<Rightarrow> EmailDetails list io" where
  "fetchNewEmails rt gm hid w =
     (case fetch_try rt gm hid w of (error, emails, w') \<Rightarrow> (Inr emails, w'))"

section \<open>The webhook: \<open>POST\<close>\<close>

text \<open>
  What \<open>await request.json()\<close> gives: an exception, the value \<open>null\<close>, or a body.
  \<open>message_data\<close> is \<open>body.message?.data\<close>.
\<close>

record PubSubMessage =
  message_data :: "string option"
  subscription :: string

record response =
  status :: nat
  status_text :: string

definition ok_response :: response where
  "ok_response = \<lparr> status = 200, status_text = ''ok'' \<rparr>"

definition testEmail :: "runtime \<Rightarrow> GmailNotification \<Rightarrow> world \<Rightarrow> StoredEmail" where
  "testEmail rt notification w =
     \<lparr> id' = ''test-'' @ show_nat (clock w),
       threadId = ''test'',
       subject = ''[Test] Pub/Sub Notification Test'',
       from' = ''pubsub@test.com'',
       to' = emailAddress notification,
       date = toISOString rt (clock w),
       snippet = ''Test notification with history ID: '' @ String_of (historyId' notification),
       body = Some ''This is a test notification from Pub/Sub. Real emails will show full content.'',
       receivedAt = toISOString rt (clock w),
       historyId = historyId' notification \<rparr>"

text \<open>\<open>{ ...email, receivedAt: new Date().toISOString(), historyId }\<close>\<close>

definition storedEmail :: "runtime \<Rightarrow> history_id \<Rightarrow> EmailDetails \<Rightarrow> world \<Rightarrow> StoredEmail" where
  "storedEmail rt hid email w =
     \<lparr> id' = id' email, threadId = threadId email, subject = subject email,
       from' = from' email, to' = to' email, date = date email, snippet = snippet email,
       body = body email,
       receivedAt = toISOString rt (clock w),
       historyId = hid \<rparr>"

text \<open>\<open>for (const email of newEmails)\<close>; the rest of the loop body only logs.\<close>

fun store_emails :: "runtime \<Rightarrow> history_id \<Rightarrow> EmailDetails list \<Rightarrow> unit io" where
  "store_emails rt hid [] w = (Inr (), w)"
| "store_emails rt hid (email # rest) w =
     (case addEmail rt (storedEmail rt hid email w) w of
        (Inl e, w') \<Rightarrow> (Inl e, w')
      | (Inr stored, w') \<Rightarrow> store_emails rt hid rest w')"

text \<open>The inner \<open>try\<close> block, from \<open>JSON.parse(decodedData)\<close> on.\<close>

definition handle_notification :: "runtime \<Rightarrow> gmail \<Rightarrow> string \<Rightarrow> unit io" where
  "handle_notification rt gm decodedData w =
     (case json_parse rt decodedData of
        Inl e \<Rightarrow> (Inl e, w)
      | Inr None \<Rightarrow> (Inl TypeError, w)
      | Inr (Some notification) \<Rightarrow>
          if prefix ''test'' (String_of (historyId' notification))
          then bind_io (addEmail rt (testEmail rt notification w)) (\<lambda>_. return_io ()) w
          else bind_io (fetchNewEmails rt gm (historyId' notification)) (\<lambda>newEmails.
                 if length newEmails > 0
                 then store_emails rt (historyId' notification) newEmails
                 else return_io ()) w)"

definition POST :: "runtime \<Rightarrow> gmail \<Rightarrow> exn + PubSubMessage option \<Rightarrow> response io" where
  "POST rt gm request =
     try_catch
       (\<lambda>w. case request of
              Inl e \<Rightarrow> (Inl e, w)
            | Inr None \<Rightarrow> (Inl TypeError, w)
            | Inr (Some msg) \<Rightarrow>
                bind_io
                  (if truthy (message_data msg)
                   then try_catch
                          (handle_notification rt gm (b64utf8 rt (or_empty (message_data msg))))
                          (\<lambda>error. return_io ())
                   else return_io ())
                  (\<lambda>_. return_io ok_response) w)
       (\<lambda>error. return_io ok_response)"

section \<open>Views of the store used in the statements\<close>

text \<open>The time to live of a by-id entry, in milliseconds.\<close>

definition ttl_ms :: nat where
  "ttl_ms = ttl_seconds * 1000"

text \<open>The ordered sequence: what the list key holds.\<close>

definition the_list :: "world \<Rightarrow> StoredEmail list" where
  "the_list w = (case db w emailsKey of Some (RList xs, e) \<Rightarrow> xs | _ \<Rightarrow> [])"

text \<open>
  The list key is as the store leaves it: absent, or a list with no expiry. The store
  never writes anything else under it, since no by-id key and not the stats key equals
  the list key.
\<close>

definition list_ok :: "world \<Rightarrow> bool" where
  "list_ok w =
     (case db w emailsKey of None \<Rightarrow> True | Some (RList xs, None) \<Rightarrow> True | _ \<Rightarrow> False)"

text \<open>One insert at a given time, and a run of inserts, oldest first.\<close>

definition insert_at :: "runtime \<Rightarrow> world \<Rightarrow> nat \<times> StoredEmail \<Rightarrow> world" where
  "insert_at rt w te = snd (addEmail rt (snd te) (w\<lparr>clock := fst te\<rparr>))"

definition inserts :: "runtime \<Rightarrow> world \<Rightarrow> (nat \<times> StoredEmail) list \<Rightarrow> world" where
  "inserts rt w tes = foldl (insert_at rt) w tes"

text \<open>The insert that was the last to carry a given id.\<close>

definition latest :: "(nat \<times> StoredEmail) list \<Rightarrow> string \<Rightarrow> (nat \<times> StoredEmail) option" where
  "latest tes i = find (\<lambda>te. id' (snd te) = i) (rev tes)"

text \<open>
  Reading the provider log. \<open>new_calls w w'\<close> are the calls made between two worlds,
  oldest first; \<open>got\<close> are the messages that the successful fetches among them
  returned; \<open>call_failed\<close> says that a call ended in an exception.
\<close>

definition new_calls :: "world \<Rightarrow> world \<Rightarrow> gcall list" where
  "new_calls w w' = rev (take (length (glog w') - length (glog w)) (glog w'))"

fun got :: "gcall list \<Rightarrow> GmailMessage list" where
  "got [] = []"
| "got (CallMessagesGet i (Inr m) # cs) = m # got cs"
| "got (c # cs) = got cs"

fun call_failed :: "gcall \<Rightarrow> bool" where
  "call_failed (CallHistoryList s r) = (case r of Inl e \<Rightarrow> True | Inr x \<Rightarrow> False)"
| "call_failed (CallMessagesList r) = (case r of Inl e \<Rightarrow> True | Inr x \<Rightarrow> False)"
| "call_failed (CallMessagesGet i r) = (case r of Inl e \<Rightarrow> True | Inr x \<Rightarrow> False)"

text \<open>
  What a run of provider calls did: the world differs in its log only, by the calls
  \<open>cs\<close> (oldest first); no call but the last failed, and the last failed exactly when
  the run ended in an exception.
\<close>

definition ran :: "world \<Rightarrow> gcall list \<Rightarrow> exn option \<Rightarrow> world \<Rightarrow> bool" where
  "ran w cs x w' =
     (w' = w\<lparr>glog := rev cs @ glog w\<rparr> \<and> list_all (\<lambda>c. \<not> call_failed c) (butlast cs) \<and>
      (case x of None \<Rightarrow> list_all (\<lambda>c. \<not> call_failed c) cs
       | Some e \<Rightarrow> cs \<noteq> [] \<and> call_failed (last cs)))"

text \<open>
  Names that are equal without regard to case, said on the letters themselves and not
  through \<open>toLowerCase\<close>: two characters agree when they are equal or are the capital
  and the small form of one ASCII letter, and two names agree when they have the same
  length and agree character by character.
\<close>

definition is_capital :: "char \<Rightarrow> bool" where
  "is_capital c = (65 \<le> (of_char c :: nat) \<and> (of_char c :: nat) \<le> 90)"

definition same_letter :: "char \<Rightarrow> char \<Rightarrow> bool" where
  "same_letter a b =
     (a = b \<or> (is_capital a \<and> (of_char b :: nat) = of_char a + 32)
            \<or> (is_capital b \<and> (of_char a :: nat) = of_char b + 32))"

definition same_name :: "string \<Rightarrow> string \<Rightarrow> bool" where
  "same_name a b = list_all2 same_letter a b"

section \<open>Example inputs\<close>

text \<open>
  A runtime for the examples: it decodes and parses the payloads the examples use.
  \<open>long_payload\<close> is the base64 text of 5000 letters \<open>a\<close>.
\<close>

definition long_payload :: string where
  "long_payload = concat (replicate 1666 ''YWFh'') @ ''YWE=''"

definition demo_runtime :: runtime where
  \<open>demo_runtime =
     \<lparr> b64utf8 = (\<lambda>s.
         if s = long_payload then replicate 5000 (CHR ''a'')
         else if s = ''SGVsbG8='' then ''Hello''
         else if s = ''U2Vjb25kIHBhcnQ='' then ''Second part''
         else if s = ''eyJlbWFpbEFkZHJlc3MiOiJtZUBleGFtcGxlLmNvbSIsImhpc3RvcnlJZCI6InRlc3QtMTIzIn0=''
           then ''{"emailAddress":"me@example.com","historyId":"test-123"}''
         else if s = ''eyJlbWFpbEFkZHJlc3MiOiJtZUBleGFtcGxlLmNvbSIsImhpc3RvcnlJZCI6MTAwMX0=''
           then ''{"emailAddress":"me@example.com","historyId":1001}''
         else []),
       json_parse = (\<lambda>s.
         if s = ''{"emailAddress":"me@example.com","historyId":"test-123"}''
           then Inr (Some \<lparr> emailAddress = ''me@example.com'', historyId' = HString ''test-123'' \<rparr>)
         else if s = ''{"emailAddress":"me@example.com","historyId":1001}''
           then Inr (Some \<lparr> emailAddress = ''me@example.com'', historyId' = HNumber ''1001'' \<rparr>)
         else if s = ''null'' then Inr None
         else Inl SyntaxError),
       toISOString = (\<lambda>ms. if ms = 0 then ''1970-01-01T00:00:00.000Z'' else []) \<rparr>\<close>

definition empty_world :: world where
  "empty_world = \<lparr> db = Map.empty, clock = 0, faults = [], glog = [] \<rparr>"

text \<open>
  A message with one header and two parts, the first of them HTML; the header's name,
  the flat body, and the second part's media type and data are left open.
\<close>

definition example_message ::
  "string \<Rightarrow> string option \<Rightarrow> string \<Rightarrow> string option \<Rightarrow> GmailMessage" where
  "example_message headerName flat mediaType partData =
     \<lparr> msg_id = Some ''18c5a1'', msg_threadId = Some ''18c5a0'',
       payload = Some
         \<lparr> headers = Some [\<lparr> h_name = headerName, h_value = ''Greetings'' \<rparr>],
           body_data = flat,
           parts = Some [\<lparr> mimeType = ''text/html'', part_data = Some ''U2Vjb25kIHBhcnQ='' \<rparr>,
                         \<lparr> mimeType = mediaType, part_data = partData \<rparr>] \<rparr>,
       msg_snippet = Some ''Hello'' \<rparr>"

text \<open>A stored record with a given id and time of receipt.\<close>

definition mail :: "string \<Rightarrow> string \<Rightarrow> StoredEmail" where
  "mail i received =
     \<lparr> id' = i, threadId = ''18c5a0'', subject = ''Greetings'', from' = ''alice@example.com'',
       to' = ''me@example.com'', date = ''Mon, 1 Jan 2024 00:00:00 +0000'', snippet = ''Hello'',
       body = Some ''Hello'', receivedAt = received, historyId = HNumber ''1001'' \<rparr>"

text \<open>
  A provider whose history holds one entry with two added messages; the first of them
  can be fetched, every other fetch fails, and so does the listing of unread messages.
\<close>

definition flaky_gmail :: gmail where
  "flaky_gmail =
     \<lparr> history_list = (\<lambda>log start. Inr (Some [Some [Some ''18c5a1'', Some ''18c5a2'']])),
       messages_list = (\<lambda>log. Inl ProviderError),
       messages_get = (\<lambda>log i.
         if i = ''18c5a1''
         then Inr (example_message ''Subject'' (Some ''SGVsbG8='') ''text/plain'' None)
         else Inl ProviderError) \<rparr>"

text \<open>
  Runs of inserts: one record and then a hundred copies of a second one with another id;
  the same with the second record carrying the id of the first; and two records.
\<close>

definition window_run :: "(nat \<times> StoredEmail) list" where
  "window_run =
     (0, mail ''18c5a1'' ''1970-01-01T00:00:00.000Z'')
       # replicate 100 (5000, mail ''18c5a2'' ''1970-01-01T00:00:05.000Z'')"

definition duplicate_run :: "(nat \<times> StoredEmail) list" where
  "duplicate_run =
     (0, mail ''18c5a1'' ''1970-01-01T00:00:00.000Z'')
       # replicate 100 (5000, mail ''18c5a1'' ''1970-01-01T00:00:05.000Z'')"

definition short_run :: "(nat \<times> StoredEmail) list" where
  "short_run =
     [(0, mail ''18c5a1'' ''1970-01-01T00:00:00.000Z''),
      (5000, mail ''18c5a2'' ''1970-01-01T00:00:05.000Z'')]"

text \<open>A notification for the cursor 1001, as Pub/Sub delivers it.\<close>

definition real_request :: "exn + PubSubMessage option" where
  "real_request =
     Inr (Some \<lparr> message_data =
            Some ''eyJlbWFpbEFkZHJlc3MiOiJtZUBleGFtcGxlLmNvbSIsImhpc3RvcnlJZCI6MTAwMX0='',
          subscription = ''projects/demo/subscriptions/gmail-webhook-prod'' \<rparr>)"

text \<open>
  A provider with an empty history and one unread message, which can be fetched.
\<close>

definition quiet_gmail :: gmail where
  "quiet_gmail =
     \<lparr> history_list = (\<lambda>log start. Inr None),
       messages_list = (\<lambda>log. Inr (Some [Some ''18c5a1''])),
       messages_get = (\<lambda>log i.
         if i = ''18c5a1''
         then Inr (example_message ''Subject'' None ''text/plain'' (Some ''SGVsbG8=''))
         else Inl ProviderError) \<rparr>"

text \<open>
  A message with four headers, two of them a subject in different case, and one part that
  declares \<open>Text/Plain\<close>.
\<close>

definition headed_message :: GmailMessage where
  "headed_message =
     \<lparr> msg_id = Some ''18c5a1'', msg_threadId = Some ''18c5a0'',
       payload = Some
         \<lparr> headers = Some [\<lparr> h_name = ''From'', h_value = ''alice@example.com'' \<rparr>,
                           \<lparr> h_name = ''SUBJECT'', h_value = ''Greetings'' \<rparr>,
                           \<lparr> h_name = ''Subject'', h_value = ''Second'' \<rparr>,
                           \<lparr> h_name = ''Dated'', h_value = ''yesterday'' \<rparr>],
           body_data = None,
           parts = Some [\<lparr> mimeType = ''Text/Plain'', part_data = Some ''SGVsbG8='' \<rparr>] \<rparr>,
       msg_snippet = Some ''Hello'' \<rparr>"

section \<open>Extraction\<close>

lemma truthy_Some [simp]: "truthy (Some s) = (s \<noteq> [])"
  by (simp add: truthy_def)

lemma find_first:
  "\<forall>x\<in>set pre. \<not> P x \<Longrightarrow> P q \<Longrightarrow> find P (pre @ q # post) = Some q"
  by (induction pre) auto

lemma find_none: "\<forall>x\<in>set ps. \<not> P x \<Longrightarrow> find P ps = None"
  by (induction ps) auto

lemma body_extract: "body (extractEmailDetails rt m) = Some (take 1000 (extract_body rt m))"
  by (simp add: extractEmailDetails_def Let_def)

lemma extract_body_flat:
  "payload m = Some p \<Longrightarrow> body_data p = Some d \<Longrightarrow> d \<noteq> [] \<Longrightarrow>
   extract_body rt m = b64utf8 rt d"
  by (simp add: extract_body_def or_empty_def)

lemma extract_body_part:
  "payload m = Some p \<Longrightarrow> \<not> truthy (body_data p) \<Longrightarrow> parts p = Some (pre @ q # post) \<Longrightarrow>
   \<forall>x\<in>set pre. mimeType x \<noteq> ''text/plain'' \<Longrightarrow> mimeType q = ''text/plain'' \<Longrightarrow>
   part_data q = Some d \<Longrightarrow> d \<noteq> [] \<Longrightarrow> extract_body rt m = b64utf8 rt d"
  by (simp add: extract_body_def or_empty_def find_first)

lemma extract_body_none:
  "payload m = None \<or>
   (\<exists>p. payload m = Some p \<and> \<not> truthy (body_data p) \<and>
      (parts p = None \<or>
       (\<exists>ps. parts p = Some ps \<and> (\<forall>x\<in>set ps. mimeType x \<noteq> ''text/plain'')) \<or>
       (\<exists>pre q post. parts p = Some (pre @ q # post) \<and>
          (\<forall>x\<in>set pre. mimeType x \<noteq> ''text/plain'') \<and> mimeType q = ''text/plain'' \<and>
          \<not> truthy (part_data q)))) \<Longrightarrow> extract_body rt m = []"
  by (auto simp add: extract_body_def find_first find_none)

lemma length_long_payload: "length long_payload = 6668"
  by (simp add: long_payload_def length_concat sum_list_replicate)

lemma long_payload_neq: "length s \<noteq> 6668 \<Longrightarrow> (s = long_payload) = False"
  using length_long_payload by auto

lemma demo_b64:
  "b64utf8 demo_runtime long_payload = replicate 5000 (CHR ''a'')"
  "b64utf8 demo_runtime ''SGVsbG8='' = ''Hello''"
  "b64utf8 demo_runtime ''U2Vjb25kIHBhcnQ='' = ''Second part''"
  by (simp_all add: demo_runtime_def long_payload_neq)

lemma long_payload_nonempty: "long_payload \<noteq> []"
  using length_long_payload by auto

text \<open>
  Claim C6, amended. The body of the extracted record is chosen in this order:
  (a) the flat body payload, when it is present and not empty, decoded from base64;
  (b) otherwise the first part whose media type is \<open>text/plain\<close>, when its data is
  present and not empty, decoded the same way; (c) otherwise the body is the empty
  string (it is never absent). In (a) and (b) the decoded text is cut to 1000
  characters.
\<close>

theorem extract_body_order:
  "(payload m = Some p \<and> body_data p = Some d \<and> d \<noteq> [] \<longrightarrow>
      body (extractEmailDetails rt m) = Some (take 1000 (b64utf8 rt d)))
   \<and> (payload m = Some p \<and> \<not> truthy (body_data p) \<and> parts p = Some (pre @ q # post) \<and>
      (\<forall>x\<in>set pre. mimeType x \<noteq> ''text/plain'') \<and> mimeType q = ''text/plain'' \<and>
      part_data q = Some d \<and> d \<noteq> [] \<longrightarrow>
      body (extractEmailDetails rt m) = Some (take 1000 (b64utf8 rt d)))
   \<and> (payload m = None \<or>
       (\<exists>p. payload m = Some p \<and> \<not> truthy (body_data p) \<and>
          (parts p = None \<or>
           (\<exists>ps. parts p = Some ps \<and> (\<forall>x\<in>set ps. mimeType x \<noteq> ''text/plain'')) \<or>
           (\<exists>pre q post. parts p = Some (pre @ q # post) \<and>
              (\<forall>x\<in>set pre. mimeType x \<noteq> ''text/plain'') \<and> mimeType q = ''text/plain'' \<and>
              \<not> truthy (part_data q)))) \<longrightarrow>
      body (extractEmailDetails rt m) = Some [])"
proof (intro conjI impI)
  assume "payload m = Some p \<and> body_data p = Some d \<and> d \<noteq> []"
  then show "body (extractEmailDetails rt m) = Some (take 1000 (b64utf8 rt d))"
    by (simp add: body_extract extract_body_flat)
next
  assume "payload m = Some p \<and> \<not> truthy (body_data p) \<and> parts p = Some (pre @ q # post) \<and>
      (\<forall>x\<in>set pre. mimeType x \<noteq> ''text/plain'') \<and> mimeType q = ''text/plain'' \<and>
      part_data q = Some d \<and> d \<noteq> []"
  then show "body (extractEmailDetails rt m) = Some (take 1000 (b64utf8 rt d))"
    using extract_body_part [of m p pre q post d rt] by (simp add: body_extract)
next
  assume "payload m = None \<or>
       (\<exists>p. payload m = Some p \<and> \<not> truthy (body_data p) \<and>
          (parts p = None \<or>
           (\<exists>ps. parts p = Some ps \<and> (\<forall>x\<in>set ps. mimeType x \<noteq> ''text/plain'')) \<or>
           (\<exists>pre q post. parts p = Some (pre @ q # post) \<and>
              (\<forall>x\<in>set pre. mimeType x \<noteq> ''text/plain'') \<and> mimeType q = ''text/plain'' \<and>
              \<not> truthy (part_data q))))"
  then have "extract_body rt m = []" by (rule extract_body_none)
  then show "body (extractEmailDetails rt m) = Some []" by (simp add: body_extract)
qed

theorem extract_body_order_witness:
  "body (extractEmailDetails demo_runtime
       (example_message ''Subject'' (Some ''SGVsbG8='') ''text/plain'' (Some ''U2Vjb25kIHBhcnQ='')))
     = Some ''Hello''
   \<and> body (extractEmailDetails demo_runtime
       (example_message ''Subject'' None ''text/plain'' (Some ''SGVsbG8=''))) = Some ''Hello''
   \<and> body (extractEmailDetails demo_runtime
       (example_message ''Subject'' None ''text/html'' (Some ''SGVsbG8=''))) = Some []"
proof (intro conjI)
  let ?m = "example_message ''Subject'' (Some ''SGVsbG8='') ''text/plain'' (Some ''U2Vjb25kIHBhcnQ='')"
  show "body (extractEmailDetails demo_runtime ?m) = Some ''Hello''"
    using extract_body_order [of ?m "the (payload ?m)" "''SGVsbG8=''" demo_runtime]
    by (simp add: example_message_def demo_b64)
next
  let ?m = "example_message ''Subject'' None ''text/plain'' (Some ''SGVsbG8='')"
  show "body (extractEmailDetails demo_runtime ?m) = Some ''Hello''"
    using extract_body_order [of ?m "the (payload ?m)" "''SGVsbG8=''" demo_runtime
        "[\<lparr> mimeType = ''text/html'', part_data = Some ''U2Vjb25kIHBhcnQ='' \<rparr>]"
        "\<lparr> mimeType = ''text/plain'', part_data = Some ''SGVsbG8='' \<rparr>" "[]"]
    by (simp add: example_message_def demo_b64 truthy_def)
next
  let ?m = "example_message ''Subject'' None ''text/html'' (Some ''SGVsbG8='')"
  have "\<exists>p. payload ?m = Some p \<and> \<not> truthy (body_data p) \<and>
          (\<exists>ps. parts p = Some ps \<and> (\<forall>x\<in>set ps. mimeType x \<noteq> ''text/plain''))"
    by (simp add: example_message_def truthy_def)
  then show "body (extractEmailDetails demo_runtime ?m) = Some []"
    using extract_body_order [of ?m "the (payload ?m)" "[]" demo_runtime] by blast
qed

text \<open>
  The claim as stated fails in (c): for a message with no payload at all the body of
  the record is the empty string, not an absent field.
\<close>

theorem body_absent_counterexample:
  "body (extractEmailDetails demo_runtime
      \<lparr> msg_id = Some ''18c5a1'', msg_threadId = Some ''18c5a0'', payload = None,
        msg_snippet = Some ''Hello'' \<rparr>) = Some []
   \<and> body (extractEmailDetails demo_runtime
      \<lparr> msg_id = Some ''18c5a1'', msg_threadId = Some ''18c5a0'', payload = None,
        msg_snippet = Some ''Hello'' \<rparr>) \<noteq> None"
  by (simp add: body_extract extract_body_def)

text \<open>
  Claim C7. When the source of the body (the flat body, or else the first plain-text
  part) decodes to 5000 characters, the body of the stored record has exactly 1000
  characters and is a strict prefix of the decoded text, whichever source it came
  from.
\<close>

theorem body_cap_5000:
  "(payload m = Some p \<and> body_data p = Some d \<and> d \<noteq> [] \<and> length (b64utf8 rt d) = 5000 \<longrightarrow>
      (\<exists>b. body (storedEmail rt hid (extractEmailDetails rt m) w) = Some b \<and>
           length b = 1000 \<and> strict_prefix b (b64utf8 rt d)))
   \<and> (payload m = Some p \<and> \<not> truthy (body_data p) \<and> parts p = Some (pre @ q # post) \<and>
      (\<forall>x\<in>set pre. mimeType x \<noteq> ''text/plain'') \<and> mimeType q = ''text/plain'' \<and>
      part_data q = Some d \<and> d \<noteq> [] \<and> length (b64utf8 rt d) = 5000 \<longrightarrow>
      (\<exists>b. body (storedEmail rt hid (extractEmailDetails rt m) w) = Some b \<and>
           length b = 1000 \<and> strict_prefix b (b64utf8 rt d)))"
proof -
  have cap: "length s = 5000 \<Longrightarrow> length (take 1000 s) = 1000 \<and> strict_prefix (take 1000 s) s"
    for s :: string
    by (auto simp add: strict_prefix_def take_is_prefix)
  have stored: "body (storedEmail rt hid (extractEmailDetails rt m) w) =
      Some (take 1000 (extract_body rt m))"
    by (simp add: storedEmail_def body_extract)
  show ?thesis
  proof (intro conjI impI)
    assume a: "payload m = Some p \<and> body_data p = Some d \<and> d \<noteq> [] \<and> length (b64utf8 rt d) = 5000"
    then have "extract_body rt m = b64utf8 rt d" by (simp add: extract_body_flat)
    then show "\<exists>b. body (storedEmail rt hid (extractEmailDetails rt m) w) = Some b \<and>
           length b = 1000 \<and> strict_prefix b (b64utf8 rt d)"
      using a cap [of "b64utf8 rt d"] by (simp add: stored)
  next
    assume a: "payload m = Some p \<and> \<not> truthy (body_data p) \<and> parts p = Some (pre @ q # post) \<and>
      (\<forall>x\<in>set pre. mimeType x \<noteq> ''text/plain'') \<and> mimeType q = ''text/plain'' \<and>
      part_data q = Some d \<and> d \<noteq> [] \<and> length (b64utf8 rt d) = 5000"
    then have "extract_body rt m = b64utf8 rt d"
      using extract_body_part [of m p pre q post d rt] by simp
    then show "\<exists>b. body (storedEmail rt hid (extractEmailDetails rt m) w) = Some b \<and>
           length b = 1000 \<and> strict_prefix b (b64utf8 rt d)"
      using a cap [of "b64utf8 rt d"] by (simp add: stored)
  qed
qed

theorem body_cap_5000_witness:
  "length (b64utf8 demo_runtime long_payload) = 5000
   \<and> (\<exists>b. body (storedEmail demo_runtime (HNumber ''1001'')
              (extractEmailDetails demo_runtime
                 (example_message ''Subject'' (Some long_payload) ''text/plain'' None)) empty_world)
            = Some b
          \<and> length b = 1000 \<and> strict_prefix b (b64utf8 demo_runtime long_payload))
   \<and> (\<exists>b. body (storedEmail demo_runtime (HNumber ''1001'')
              (extractEmailDetails demo_runtime
                 (example_message ''Subject'' None ''text/plain'' (Some long_payload))) empty_world)
            = Some b
          \<and> length b = 1000 \<and> strict_prefix b (b64utf8 demo_runtime long_payload))"
proof (intro conjI)
  show len: "length (b64utf8 demo_runtime long_payload) = 5000"
    by (simp add: demo_b64)
  let ?m = "example_message ''Subject'' (Some long_payload) ''text/plain'' None"
  show "\<exists>b. body (storedEmail demo_runtime (HNumber ''1001'')
              (extractEmailDetails demo_runtime ?m) empty_world) = Some b
          \<and> length b = 1000 \<and> strict_prefix b (b64utf8 demo_runtime long_payload)"
    using body_cap_5000 [of ?m "the (payload ?m)" long_payload demo_runtime "HNumber ''1001''"
        empty_world] len
    by (simp add: example_message_def long_payload_nonempty)
  let ?m = "example_message ''Subject'' None ''text/plain'' (Some long_payload)"
  show "\<exists>b. body (storedEmail demo_runtime (HNumber ''1001'')
              (extractEmailDetails demo_runtime ?m) empty_world) = Some b
          \<and> length b = 1000 \<and> strict_prefix b (b64utf8 demo_runtime long_payload)"
    using body_cap_5000 [of ?m "the (payload ?m)" long_payload demo_runtime "HNumber ''1001''"
        empty_world "[\<lparr> mimeType = ''text/html'', part_data = Some ''U2Vjb25kIHBhcnQ='' \<rparr>]"
        "\<lparr> mimeType = ''text/plain'', part_data = Some long_payload \<rparr>" "[]"] len
    by (simp add: example_message_def long_payload_nonempty truthy_def)
qed

lemma of_char_lower_char:
  "(of_char (lower_char c) :: nat) =
     (if 65 \<le> (of_char c :: nat) \<and> (of_char c :: nat) \<le> 90 then of_char c + 32 else of_char c)"
  by (simp add: lower_char_def Let_def)

lemma lower_char_same_letter: "(lower_char a = lower_char b) = same_letter a b"
proof -
  have "(lower_char a = lower_char b)
      = ((of_char (lower_char a) :: nat) = of_char (lower_char b))"
    by simp
  also have "\<dots> = ((of_char a :: nat) = of_char b
        \<or> (is_capital a \<and> (of_char b :: nat) = of_char a + 32)
        \<or> (is_capital b \<and> (of_char a :: nat) = of_char b + 32))"
    unfolding of_char_lower_char is_capital_def by arith
  also have "\<dots> = same_letter a b"
    by (simp add: same_letter_def)
  finally show ?thesis .
qed

lemma lower_same_name: "(toLowerCase a = toLowerCase b) = same_name a b"
proof -
  have "(map lower_char a = map lower_char b)
      = list_all2 (\<lambda>x y. lower_char x = lower_char y) a b"
    by (simp add: list_all2_map1 list_all2_map2 list.rel_eq [symmetric] del: list.rel_eq)
  then show ?thesis by (simp add: toLowerCase_def same_name_def lower_char_same_letter)
qed

lemma getHeader_found:
  assumes "\<forall>x\<in>set pre. \<not> same_name (h_name x) name" and "same_name (h_name h) name"
  shows "getHeader (pre @ h # post) name = h_value h"
  using assms by (simp add: getHeader_def lower_same_name find_first)

lemma getHeader_missing:
  assumes "\<forall>x\<in>set hs. \<not> same_name (h_name x) name"
  shows "getHeader hs name = []"
  using assms by (simp add: getHeader_def lower_same_name find_none)

lemma extract_headers:
  assumes "payload m = Some p" and "headers p = Some hs"
  shows "subject (extractEmailDetails rt m) = getHeader hs ''Subject''"
    and "from' (extractEmailDetails rt m) = getHeader hs ''From''"
    and "to' (extractEmailDetails rt m) = getHeader hs ''To''"
    and "date (extractEmailDetails rt m) = getHeader hs ''Date''"
  using assms by (simp_all add: extractEmailDetails_def)

lemma same_name_examples: "same_name ''SUBJECT'' ''Subject''" "\<not> same_name ''From'' ''Subject''"
  "same_name ''Text/Plain'' ''text/plain''" "\<not> same_name ''Dated'' ''Date''"
  "\<not> same_name ''Subjecu'' ''Subject''"
  by (simp_all add: same_name_def same_letter_def is_capital_def)

text \<open>
  Claim C10. Header lookup is by name without regard to case: \<open>getHeader\<close> returns the
  value of the first header whose name agrees with the name asked for up to the case of
  its letters, and the empty string when no header's name does; subject, sender,
  recipient and date are the lookups for \<open>Subject\<close>, \<open>From\<close>, \<open>To\<close> and
  \<open>Date\<close>. The media type of a part is compared with \<open>text/plain\<close> exactly: with
  no flat body, parts none of which declares exactly \<open>text/plain\<close> give an empty
  body, and the first part that declares exactly \<open>text/plain\<close> is the one decoded.
  \<open>Text/Plain\<close> agrees with \<open>text/plain\<close> up to case and is not equal to it. So a
  message with no flat body whose only text part declares \<open>Text/Plain\<close> (or
  \<open>text/plain\<close> with a parameter) gets an empty body, while its header named
  \<open>SUBJECT\<close> is found as the subject and a lookup for \<open>From\<close> finds nothing.
\<close>

theorem media_type_exact_header_name_any_case:
  "((\<forall>x\<in>set pre. \<not> same_name (h_name x) name) \<and> same_name (h_name h) name \<longrightarrow>
      getHeader (pre @ h # post) name = h_value h)
   \<and> ((\<forall>x\<in>set hs. \<not> same_name (h_name x) name) \<longrightarrow> getHeader hs name = [])
   \<and> (payload m = Some p \<and> headers p = Some hs \<longrightarrow>
        subject (extractEmailDetails rt m) = getHeader hs ''Subject'' \<and>
        from' (extractEmailDetails rt m) = getHeader hs ''From'' \<and>
        to' (extractEmailDetails rt m) = getHeader hs ''To'' \<and>
        date (extractEmailDetails rt m) = getHeader hs ''Date'')
   \<and> (payload m = Some p \<and> \<not> truthy (body_data p) \<and> parts p = Some ps \<and>
        (\<forall>q\<in>set ps. mimeType q \<noteq> ''text/plain'') \<longrightarrow>
        body (extractEmailDetails rt m) = Some [])
   \<and> (payload m = Some p \<and> \<not> truthy (body_data p) \<and> parts p = Some (qs @ q # rest) \<and>
        (\<forall>x\<in>set qs. mimeType x \<noteq> ''text/plain'') \<and> mimeType q = ''text/plain'' \<and>
        part_data q = Some d \<and> d \<noteq> [] \<longrightarrow>
        body (extractEmailDetails rt m) = Some (take 1000 (b64utf8 rt d)))
   \<and> same_name ''Text/Plain'' ''text/plain'' \<and> same_name ''SUBJECT'' ''Subject''
   \<and> body (extractEmailDetails rt
        (example_message ''SUBJECT'' None ''Text/Plain'' (Some ''SGVsbG8=''))) = Some []
   \<and> subject (extractEmailDetails rt
        (example_message ''SUBJECT'' None ''Text/Plain'' (Some ''SGVsbG8=''))) = ''Greetings''
   \<and> from' (extractEmailDetails rt
        (example_message ''SUBJECT'' None ''Text/Plain'' (Some ''SGVsbG8=''))) = []
   \<and> body (extractEmailDetails rt
        (example_message ''SUBJECT'' None ''text/plain; charset=UTF-8'' (Some ''SGVsbG8=''))) = Some []
   \<and> body (extractEmailDetails rt
        (example_message ''SUBJECT'' None ''text/plain'' (Some ''SGVsbG8='')))
       = Some (take 1000 (b64utf8 rt ''SGVsbG8=''))"
proof -
  have general_found: "(\<forall>x\<in>set pre. \<not> same_name (h_name x) name) \<and> same_name (h_name h) name \<longrightarrow>
      getHeader (pre @ h # post) name = h_value h"
    using getHeader_found [of pre name h post] by blast
  have general_missing: "(\<forall>x\<in>set hs. \<not> same_name (h_name x) name) \<longrightarrow> getHeader hs name = []"
    using getHeader_missing [of hs name] by blast
  have fields: "payload m = Some p \<and> headers p = Some hs \<longrightarrow>
        subject (extractEmailDetails rt m) = getHeader hs ''Subject'' \<and>
        from' (extractEmailDetails rt m) = getHeader hs ''From'' \<and>
        to' (extractEmailDetails rt m) = getHeader hs ''To'' \<and>
        date (extractEmailDetails rt m) = getHeader hs ''Date''"
    using extract_headers [of m p hs rt] by blast
  have no_plain: "payload m = Some p \<and> \<not> truthy (body_data p) \<and> parts p = Some ps \<and>
        (\<forall>q\<in>set ps. mimeType q \<noteq> ''text/plain'') \<longrightarrow>
        body (extractEmailDetails rt m) = Some []"
  proof
    assume a: "payload m = Some p \<and> \<not> truthy (body_data p) \<and> parts p = Some ps \<and>
        (\<forall>q\<in>set ps. mimeType q \<noteq> ''text/plain'')"
    then have "extract_body rt m = []" by (intro extract_body_none) blast
    then show "body (extractEmailDetails rt m) = Some []" by (simp add: body_extract)
  qed
  have plain: "payload m = Some p \<and> \<not> truthy (body_data p) \<and> parts p = Some (qs @ q # rest) \<and>
        (\<forall>x\<in>set qs. mimeType x \<noteq> ''text/plain'') \<and> mimeType q = ''text/plain'' \<and>
        part_data q = Some d \<and> d \<noteq> [] \<longrightarrow>
        body (extractEmailDetails rt m) = Some (take 1000 (b64utf8 rt d))"
    using extract_body_part [of m p qs q rest d rt] by (simp add: body_extract)
  have inst: "body (extractEmailDetails rt
        (example_message ''SUBJECT'' None ''Text/Plain'' (Some ''SGVsbG8=''))) = Some []
   \<and> subject (extractEmailDetails rt
        (example_message ''SUBJECT'' None ''Text/Plain'' (Some ''SGVsbG8=''))) = ''Greetings''
   \<and> from' (extractEmailDetails rt
        (example_message ''SUBJECT'' None ''Text/Plain'' (Some ''SGVsbG8=''))) = []
   \<and> body (extractEmailDetails rt
        (example_message ''SUBJECT'' None ''text/plain; charset=UTF-8'' (Some ''SGVsbG8=''))) = Some []
   \<and> body (extractEmailDetails rt
        (example_message ''SUBJECT'' None ''text/plain'' (Some ''SGVsbG8='')))
       = Some (take 1000 (b64utf8 rt ''SGVsbG8=''))"
    by (simp add: extractEmailDetails_def extract_body_def example_message_def getHeader_def
        lower_same_name same_name_def same_letter_def is_capital_def truthy_def or_empty_def)
  show ?thesis
    using general_found general_missing fields no_plain plain same_name_examples(1,3) inst by blast
qed

theorem media_type_exact_header_name_any_case_witness:
  "same_name ''SUBJECT'' ''Subject'' \<and> \<not> same_name ''From'' ''Subject''
   \<and> subject (extractEmailDetails demo_runtime headed_message) = ''Greetings''
   \<and> from' (extractEmailDetails demo_runtime headed_message) = ''alice@example.com''
   \<and> to' (extractEmailDetails demo_runtime headed_message) = []
   \<and> date (extractEmailDetails demo_runtime headed_message) = []
   \<and> body (extractEmailDetails demo_runtime headed_message) = Some []
   \<and> body (extractEmailDetails demo_runtime
        (example_message ''SUBJECT'' None ''text/plain'' (Some ''SGVsbG8=''))) = Some ''Hello''"
proof -
  let ?from = "\<lparr> h_name = ''From'', h_value = ''alice@example.com'' \<rparr>"
  let ?subj = "\<lparr> h_name = ''SUBJECT'', h_value = ''Greetings'' \<rparr>"
  let ?second = "\<lparr> h_name = ''Subject'', h_value = ''Second'' \<rparr>"
  let ?dated = "\<lparr> h_name = ''Dated'', h_value = ''yesterday'' \<rparr>"
  let ?hs = "[?from, ?subj, ?second, ?dated]"
  let ?part = "\<lparr> mimeType = ''Text/Plain'', part_data = Some ''SGVsbG8='' \<rparr>"
  let ?p = "\<lparr> headers = Some ?hs, body_data = None, parts = Some [?part] \<rparr>"
  let ?m = "example_message ''SUBJECT'' None ''text/plain'' (Some ''SGVsbG8='')"
  have n: "same_name ''SUBJECT'' ''Subject''" "\<not> same_name ''From'' ''Subject''"
    "same_name ''From'' ''From''" "\<not> same_name ''From'' ''To''" "\<not> same_name ''SUBJECT'' ''To''"
    "\<not> same_name ''Subject'' ''To''" "\<not> same_name ''Dated'' ''To''"
    "\<not> same_name ''From'' ''Date''" "\<not> same_name ''SUBJECT'' ''Date''"
    "\<not> same_name ''Subject'' ''Date''" "\<not> same_name ''Dated'' ''Date''"
    by (simp_all add: same_name_def same_letter_def is_capital_def)
  have pl: "payload headed_message = Some ?p" by (simp add: headed_message_def)
  have s: "getHeader ([?from] @ ?subj # [?second, ?dated]) ''Subject'' = ''Greetings''"
    using media_type_exact_header_name_any_case [where pre = "[?from]" and h = ?subj
        and post = "[?second, ?dated]" and name = "''Subject''"] n by simp
  have f: "getHeader ([] @ ?from # [?subj, ?second, ?dated]) ''From'' = ''alice@example.com''"
    using media_type_exact_header_name_any_case [where pre = "[]" and h = ?from
        and post = "[?subj, ?second, ?dated]" and name = "''From''"] n by simp
  have t: "getHeader ?hs ''To'' = []"
    using media_type_exact_header_name_any_case [where hs = ?hs and name = "''To''"] n by simp
  have d: "getHeader ?hs ''Date'' = []"
    using media_type_exact_header_name_any_case [where hs = ?hs and name = "''Date''"] n by simp
  have fields: "subject (extractEmailDetails demo_runtime headed_message) = getHeader ?hs ''Subject'' \<and>
        from' (extractEmailDetails demo_runtime headed_message) = getHeader ?hs ''From'' \<and>
        to' (extractEmailDetails demo_runtime headed_message) = getHeader ?hs ''To'' \<and>
        date (extractEmailDetails demo_runtime headed_message) = getHeader ?hs ''Date''"
    using media_type_exact_header_name_any_case [where m = headed_message and p = ?p
        and hs = ?hs and rt = demo_runtime] pl by simp
  have b: "body (extractEmailDetails demo_runtime headed_message) = Some []"
    using media_type_exact_header_name_any_case [where m = headed_message and p = ?p
        and ps = "[?part]" and rt = demo_runtime] pl by (simp add: truthy_def)
  have b2: "body (extractEmailDetails demo_runtime ?m) = Some ''Hello''"
    using media_type_exact_header_name_any_case [where m = ?m and p = "the (payload ?m)"
        and qs = "[\<lparr> mimeType = ''text/html'', part_data = Some ''U2Vjb25kIHBhcnQ='' \<rparr>]"
        and q = "\<lparr> mimeType = ''text/plain'', part_data = Some ''SGVsbG8='' \<rparr>"
        and rest = "[]" and d = "''SGVsbG8=''" and rt = demo_runtime]
    by (simp add: example_message_def truthy_def demo_b64)
  show ?thesis using n(1,2) s f t d fields b b2 by simp
qed

section \<open>The webhook's acknowledgement\<close>

text \<open>
  Claim C2. Whatever the request, the provider, the backend and the runtime do, the
  \<open>POST\<close> handler does not raise and answers with status 200: a request that cannot
  be read, a payload that cannot be parsed, a failing provider call and a failing
  Redis command all end in the same acknowledgement.
\<close>

theorem post_always_acknowledges:
  "fst (POST rt gm request w) = Inr ok_response \<and> status ok_response = 200"
  unfolding POST_def try_catch_def bind_io_def return_io_def ok_response_def
  by (auto split: sum.splits option.splits prod.splits)

section \<open>Reconciliation\<close>

text \<open>
  Claim C5. For a cursor whose string form is not one or more decimal digits,
  \<open>fetchNewEmails\<close> returns the empty sequence, does not raise, and leaves the world
  as it was: no provider call is logged, so neither the history query nor the fallback
  was made.
\<close>

theorem invalid_cursor_no_call:
  "\<not> all_digits (String_of hid) \<Longrightarrow> fetchNewEmails rt gm hid w = (Inr [], w)"
  by (simp add: fetchNewEmails_def fetch_try_def)

theorem invalid_cursor_no_call_witness:
  "\<not> all_digits (String_of (HString ''12a4''))
   \<and> fetchNewEmails demo_runtime flaky_gmail (HString ''12a4'') empty_world = (Inr [], empty_world)"
proof -
  have h: "\<not> all_digits (String_of (HString ''12a4''))"
    by (simp add: all_digits_def is_digit_def)
  show ?thesis using h invalid_cursor_no_call [OF h] by simp
qed

section \<open>The store\<close>

lemma keys_distinct [simp]:
  "emailsKey \<noteq> statsKey" "statsKey \<noteq> emailsKey"
  "email_key i \<noteq> statsKey" "statsKey \<noteq> email_key i"
  "email_key i \<noteq> emailsKey" "emailsKey \<noteq> email_key i"
  by (simp_all add: emailsKey_def statsKey_def email_key_def)

lemma email_key_inj [simp]: "(email_key i = email_key j) = (i = j)"
  by (simp add: email_key_def)

lemma lrange_list_0: "0 \<le> stop \<Longrightarrow> lrange_list xs 0 stop = take (nat stop + 1) xs"
  by (auto simp add: lrange_list_def Let_def nat_add_distrib)

lemma lrange_list_all: "lrange_list xs 0 (- 1) = xs"
  by (auto simp add: lrange_list_def Let_def nat_add_distrib)

lemma list_ok_cases:
  "list_ok w \<Longrightarrow>
   db w emailsKey = None \<and> the_list w = [] \<or> db w emailsKey = Some (RList (the_list w), None)"
  by (auto simp add: list_ok_def the_list_def split: option.splits rval.splits prod.splits)

lemma addEmail_ok:
  assumes "faults w = []" and "list_ok w"
  shows "addEmail rt e w =
    (Inr True, w\<lparr>db := (db w)(emailsKey \<mapsto> (RList (take 100 (e # the_list w)), None),
         email_key (id' e) \<mapsto> (RJson (JEmail e), Some (clock w + ttl_ms)),
         statsKey \<mapsto> (RJson (JText (toISOString rt (clock w))), Some (clock w + ttl_ms)))\<rparr>)"
  using list_ok_cases [OF assms(2)] assms(1)
  by (auto simp add: addEmail_def try_catch_def bind_io_def return_io_def redis_lpush_def
      redis_ltrim_def redis_set_ex_def updateStats_def redis_call_def live_def maxEmails_def
      lrange_list_0 ttl_ms_def)

lemma addEmail_frame:
  assumes "faults w = []" and "list_ok w"
  shows "faults (snd (addEmail rt e w)) = []"
    and "clock (snd (addEmail rt e w)) = clock w"
    and "glog (snd (addEmail rt e w)) = glog w"
    and "list_ok (snd (addEmail rt e w))"
    and "the_list (snd (addEmail rt e w)) = take 100 (e # the_list w)"
    and "db (snd (addEmail rt e w)) (email_key i) =
           (if i = id' e then Some (RJson (JEmail e), Some (clock w + ttl_ms))
            else db w (email_key i))"
    and "fst (addEmail rt e w) = Inr True"
  using assms(1) by (simp_all add: addEmail_ok [OF assms] list_ok_def the_list_def)

lemma list_view_clock [simp]:
  "list_ok (w\<lparr>clock := t\<rparr>) = list_ok w" "the_list (w\<lparr>clock := t\<rparr>) = the_list w"
  by (simp_all add: list_ok_def the_list_def)

lemma insert_at_frame:
  assumes "faults w = []" and "list_ok w"
  shows "faults (insert_at rt w te) = []"
    and "glog (insert_at rt w te) = glog w"
    and "list_ok (insert_at rt w te)"
    and "the_list (insert_at rt w te) = take 100 (snd te # the_list w)"
    and "db (insert_at rt w te) (email_key i) =
           (if i = id' (snd te) then Some (RJson (JEmail (snd te)), Some (fst te + ttl_ms))
            else db w (email_key i))"
  using assms by (simp_all add: insert_at_def addEmail_frame)

lemma inserts_snoc: "inserts rt w (tes @ [te]) = insert_at rt (inserts rt w tes) te"
  by (simp add: inserts_def)

lemma inserts_Nil [simp]: "inserts rt w [] = w"
  by (simp add: inserts_def)

lemma take_append_take: "take n (xs @ take n ys) = take n (xs @ ys)"
  by (simp add: min_def)

lemma inserts_inv:
  assumes "faults w = []" and "list_ok w"
  shows "faults (inserts rt w tes) = [] \<and> list_ok (inserts rt w tes) \<and>
         glog (inserts rt w tes) = glog w"
proof (induction tes rule: rev_induct)
  case Nil
  show ?case using assms by simp
next
  case (snoc te tes)
  then show ?case by (simp add: inserts_snoc insert_at_frame)
qed

lemma inserts_list:
  assumes "faults w = []" and "list_ok w" and "tes \<noteq> []"
  shows "the_list (inserts rt w tes) = take 100 (rev (map snd tes) @ the_list w)"
  using assms(3)
proof (induction tes rule: rev_induct)
  case Nil
  then show ?case by simp
next
  case (snoc te tes)
  have inv: "faults (inserts rt w tes) = []" "list_ok (inserts rt w tes)"
    using inserts_inv [OF assms(1,2)] by simp_all
  show ?case
  proof (cases "tes = []")
    case True
    then show ?thesis using assms(1,2) by (simp add: inserts_def insert_at_frame)
  next
    case False
    then have "the_list (inserts rt w tes) = take 100 (rev (map snd tes) @ the_list w)"
      using snoc.IH by simp
    then have "the_list (inserts rt w (tes @ [te])) =
        take 100 ([snd te] @ take 100 (rev (map snd tes) @ the_list w))"
      by (simp add: inserts_snoc insert_at_frame inv)
    then show ?thesis by (simp only: take_append_take) simp
  qed
qed

lemma latest_snoc:
  "latest (tes @ [te]) i = (if id' (snd te) = i then Some te else latest tes i)"
  by (simp add: latest_def)

lemma inserts_by_id:
  assumes "faults w = []" and "list_ok w"
  shows "db (inserts rt w tes) (email_key i) =
     (case latest tes i of
        None \<Rightarrow> db w (email_key i)
      | Some te \<Rightarrow> Some (RJson (JEmail (snd te)), Some (fst te + ttl_ms)))"
proof (induction tes rule: rev_induct)
  case Nil
  show ?case by (simp add: latest_def)
next
  case (snoc te tes)
  have inv: "faults (inserts rt w tes) = []" "list_ok (inserts rt w tes)"
    using inserts_inv [OF assms(1,2)] by simp_all
  show ?case using snoc
    by (auto simp add: inserts_snoc insert_at_frame inv latest_snoc)
qed

lemma getEmails_ok:
  assumes "faults w = []" and "list_ok w"
  shows "getEmails limit w = (Inr (lrange_list (the_list w) 0 (limit - 1)), w)"
  using list_ok_cases [OF assms(2)] assms(1)
  by (auto simp add: getEmails_def try_catch_def return_io_def redis_lrange_def redis_call_def
      live_def lrange_list_def)

lemma getEmail_ok:
  assumes "faults w = []" and "db w (email_key i) = Some (RJson j, Some t)"
  shows "getEmail i w = (Inr (if clock w < t then Some j else None), w)"
  using assms
  by (auto simp add: getEmail_def try_catch_def return_io_def redis_get_def redis_call_def live_def)

lemma getEmail_absent:
  assumes "faults w = []" and "db w (email_key i) = None"
  shows "getEmail i w = (Inr None, w)"
  using assms
  by (auto simp add: getEmail_def try_catch_def return_io_def redis_get_def redis_call_def live_def)

lemma fold_del: "fold (\<lambda>k m. m(k := None)) ks m = (\<lambda>k. if k \<in> set ks then None else m k)"
  by (induction ks arbitrary: m) (auto simp add: fun_eq_iff)

lemma clear_ok:
  assumes "faults w = []" and "list_ok w"
  shows "clear w = (Inr True, w\<lparr>db := (\<lambda>k.
     if k = emailsKey \<or> k = statsKey \<or> k \<in> email_key ` id' ` set (the_list w) then None
     else db w k)\<rparr>)"
  using list_ok_cases [OF assms(2)] assms(1)
  by (auto simp add: clear_def try_catch_def bind_io_def return_io_def redis_lrange_def
      redis_del_def redis_pipeline_del_def redis_call_def live_def lrange_list_all fold_del
      fun_eq_iff intro!: arg_cong2 [where f = "\<lambda>a b. b\<lparr>db := a\<rparr>"])

text \<open>Reading after a run of inserts, at any later time.\<close>

lemma read_list_after_inserts:
  assumes "faults w = []" and "list_ok w" and "tes \<noteq> []"
  shows "getEmails limit ((inserts rt w tes)\<lparr>clock := now\<rparr>) =
     (Inr (lrange_list (take 100 (rev (map snd tes) @ the_list w)) 0 (limit - 1)),
      (inserts rt w tes)\<lparr>clock := now\<rparr>)"
  using inserts_inv [OF assms(1,2), of rt tes] inserts_list [OF assms, of rt]
  by (simp add: getEmails_ok)

lemma read_by_id_after_inserts:
  assumes "faults w = []" and "list_ok w" and "latest tes i = Some (t, e)"
  shows "getEmail i ((inserts rt w tes)\<lparr>clock := now\<rparr>) =
     (Inr (if now < t + ttl_ms then Some (JEmail e) else None),
      (inserts rt w tes)\<lparr>clock := now\<rparr>)"
proof -
  let ?W = "(inserts rt w tes)\<lparr>clock := now\<rparr>"
  have "faults ?W = []" using inserts_inv [OF assms(1,2), of rt tes] by simp
  moreover have "db ?W (email_key i) = Some (RJson (JEmail e), Some (t + ttl_ms))"
    using inserts_by_id [OF assms(1,2), of rt tes i] assms(3) by simp
  ultimately show ?thesis using getEmail_ok [of ?W i "JEmail e" "t + ttl_ms"] by simp
qed

lemma latest_unique:
  assumes "j < length tes"
    and "\<forall>l. j < l \<and> l < length tes \<longrightarrow> id' (snd (tes ! l)) \<noteq> id' (snd (tes ! j))"
  shows "latest tes (id' (snd (tes ! j))) = Some (tes ! j)"
proof -
  have split: "tes = take j tes @ tes ! j # drop (Suc j) tes"
    using assms(1) by (rule id_take_nth_drop)
  have later: "\<forall>x\<in>set (rev (drop (Suc j) tes)). \<not> id' (snd x) = id' (snd (tes ! j))"
  proof
    fix x
    assume "x \<in> set (rev (drop (Suc j) tes))"
    then obtain i where i: "i < length tes - Suc j" "x = tes ! (Suc j + i)"
      by (auto simp add: in_set_conv_nth)
    then have "j < Suc j + i \<and> Suc j + i < length tes" by arith
    then show "\<not> id' (snd x) = id' (snd (tes ! j))" using assms(2) i(2) by blast
  qed
  have "rev tes = rev (drop (Suc j) tes) @ tes ! j # rev (take j tes)"
    by (subst split) simp
  then show ?thesis
    using find_first [OF later, of "tes ! j" "rev (take j tes)"] by (simp add: latest_def)
qed

lemma mail_differs: "r \<noteq> r' \<Longrightarrow> mail i r \<noteq> mail i r'"
  by (simp add: mail_def)

lemma mail_id [simp]: "id' (mail i r) = i"
  by (simp add: mail_def)

lemma empty_world_ok [simp]: "faults empty_world = []" "list_ok empty_world" "the_list empty_world = []"
  by (simp_all add: empty_world_def list_ok_def the_list_def)

lemma find_replicate: "P y \<Longrightarrow> find P (replicate n y @ y # ys) = Some y"
  by (induction n) auto

lemma latest_head: "id' (snd te) = i \<Longrightarrow> latest (x # replicate (Suc n) te) i = Some te"
  by (simp add: latest_def find_replicate)

lemma latest_first:
  "id' (snd te) \<noteq> i \<Longrightarrow> id' (snd x) = i \<Longrightarrow> latest (x # replicate n te) i = Some x"
  by (simp add: latest_def find_first [where post = "[]", simplified])

text \<open>
  Claim C1, amended. With a backend that answers and a list key as the store leaves it,
  inserting \<open>N + k\<close> records (\<open>N = 100\<close>, \<open>k > 0\<close>) leaves exactly the \<open>N\<close>
  newest in \<open>list(N)\<close>, newest first. For each of the \<open>k\<close> records evicted by
  position, \<open>getById\<close> of its id returns the record inserted last under that id, for
  30 days from that insert and not after; this is the evicted record itself when no
  later insert carried its id.
\<close>

theorem bounded_store_window:
  assumes "faults w = []" and "list_ok w" and "length tes = maxEmails + k" and "0 < k"
  shows "fst (getEmails (int maxEmails) ((inserts rt w tes)\<lparr>clock := now\<rparr>))
           = Inr (rev (map snd (drop k tes)))
       \<and> length (rev (map snd (drop k tes))) = maxEmails
       \<and> (\<forall>j t e. j < k \<and> latest tes (id' (snd (tes ! j))) = Some (t, e) \<longrightarrow>
             fst (getEmail (id' (snd (tes ! j))) ((inserts rt w tes)\<lparr>clock := now\<rparr>))
               = Inr (if now < t + ttl_ms then Some (JEmail e) else None))
       \<and> (\<forall>j. j < k \<and>
               (\<forall>l. j < l \<and> l < length tes \<longrightarrow> id' (snd (tes ! l)) \<noteq> id' (snd (tes ! j))) \<longrightarrow>
             fst (getEmail (id' (snd (tes ! j))) ((inserts rt w tes)\<lparr>clock := now\<rparr>))
               = Inr (if now < fst (tes ! j) + ttl_ms then Some (JEmail (snd (tes ! j))) else None))"
proof (intro conjI allI impI)
  have ne: "tes \<noteq> []" using assms(3,4) by auto
  have "take 100 (rev (map snd tes)) = rev (drop (length (map snd tes) - 100) (map snd tes))"
    by (rule take_rev)
  also have "\<dots> = rev (map snd (drop k tes))"
    using assms(3) by (simp add: maxEmails_def drop_map)
  finally have "take 100 (rev (map snd tes) @ the_list w) = rev (map snd (drop k tes))"
    using assms(3) by (simp add: maxEmails_def)
  then show "fst (getEmails (int maxEmails) ((inserts rt w tes)\<lparr>clock := now\<rparr>))
           = Inr (rev (map snd (drop k tes)))"
    using assms(3)
    by (simp add: read_list_after_inserts [OF assms(1,2) ne] maxEmails_def lrange_list_0)
next
  show "length (rev (map snd (drop k tes))) = maxEmails"
    using assms(3) by simp
next
  fix j t e
  assume "j < k \<and> latest tes (id' (snd (tes ! j))) = Some (t, e)"
  then show "fst (getEmail (id' (snd (tes ! j))) ((inserts rt w tes)\<lparr>clock := now\<rparr>))
               = Inr (if now < t + ttl_ms then Some (JEmail e) else None)"
    by (simp add: read_by_id_after_inserts [OF assms(1,2)])
next
  fix j
  assume a: "j < k \<and>
     (\<forall>l. j < l \<and> l < length tes \<longrightarrow> id' (snd (tes ! l)) \<noteq> id' (snd (tes ! j)))"
  then have "j < length tes" using assms(3) by simp
  then have L: "latest tes (id' (snd (tes ! j))) = Some (fst (tes ! j), snd (tes ! j))"
    using latest_unique [of j tes] a by simp
  show "fst (getEmail (id' (snd (tes ! j))) ((inserts rt w tes)\<lparr>clock := now\<rparr>))
               = Inr (if now < fst (tes ! j) + ttl_ms then Some (JEmail (snd (tes ! j))) else None)"
    using read_by_id_after_inserts [OF assms(1,2) L, where rt = rt and now = now] by simp
qed

theorem bounded_store_window_witness:
  "length window_run = maxEmails + 1
   \<and> fst (getEmails (int maxEmails) ((inserts demo_runtime empty_world window_run)\<lparr>clock := 6000\<rparr>))
       = Inr (replicate 100 (mail ''18c5a2'' ''1970-01-01T00:00:05.000Z''))
   \<and> fst (getEmail ''18c5a1'' ((inserts demo_runtime empty_world window_run)\<lparr>clock := 6000\<rparr>))
       = Inr (Some (JEmail (mail ''18c5a1'' ''1970-01-01T00:00:00.000Z'')))"
proof -
  have len: "length window_run = maxEmails + 1" by (simp add: maxEmails_def window_run_def)
  have later: "\<forall>l. 0 < l \<and> l < length window_run \<longrightarrow>
      id' (snd (window_run ! l)) \<noteq> id' (snd (window_run ! 0))"
    by (auto simp add: nth_Cons' window_run_def)
  have ttl: "(6000::nat) < 0 + ttl_ms" by (simp add: ttl_ms_def ttl_seconds_def)
  have first: "window_run ! 0 = (0, mail ''18c5a1'' ''1970-01-01T00:00:00.000Z'')"
    and rest: "rev (map snd (drop (Suc 0) window_run))
        = replicate 100 (mail ''18c5a2'' ''1970-01-01T00:00:05.000Z'')"
    by (simp_all add: window_run_def)
  show ?thesis
    using bounded_store_window [where w = empty_world and tes = window_run and k = 1
        and rt = demo_runtime and now = 6000] len later ttl
    by (simp add: maxEmails_def first rest)
qed

text \<open>
  The claim as stated fails when a later record carries the id of an evicted one: the
  by-id entry is overwritten, and \<open>getById\<close> returns the later record, not the
  evicted one, while the evicted one's own 30 days have not passed.
\<close>

theorem evicted_duplicate_counterexample:
  "length duplicate_run = maxEmails + 1
   \<and> fst (getEmails (int maxEmails) ((inserts demo_runtime empty_world duplicate_run)\<lparr>clock := 6000\<rparr>))
       = Inr (replicate 100 (mail ''18c5a1'' ''1970-01-01T00:00:05.000Z''))
   \<and> fst (getEmail ''18c5a1'' ((inserts demo_runtime empty_world duplicate_run)\<lparr>clock := 6000\<rparr>))
       = Inr (Some (JEmail (mail ''18c5a1'' ''1970-01-01T00:00:05.000Z'')))
   \<and> fst (getEmail ''18c5a1'' ((inserts demo_runtime empty_world duplicate_run)\<lparr>clock := 6000\<rparr>))
       \<noteq> Inr (Some (JEmail (mail ''18c5a1'' ''1970-01-01T00:00:00.000Z'')))"
proof -
  have ne: "duplicate_run \<noteq> []" by (simp add: duplicate_run_def)
  have l: "latest duplicate_run ''18c5a1'' = Some (5000, mail ''18c5a1'' ''1970-01-01T00:00:05.000Z'')"
    unfolding duplicate_run_def
    using latest_head [of "(5000, mail ''18c5a1'' ''1970-01-01T00:00:05.000Z'')" "''18c5a1''" _ 99]
    by simp
  have ttl: "(6000::nat) < 5000 + ttl_ms" by (simp add: ttl_ms_def ttl_seconds_def)
  have lst: "take 100 (rev (map snd duplicate_run))
      = replicate 100 (mail ''18c5a1'' ''1970-01-01T00:00:05.000Z'')"
    by (simp add: duplicate_run_def)
  have len: "length duplicate_run = 101" by (simp add: duplicate_run_def)
  have differ: "mail ''18c5a1'' ''1970-01-01T00:00:05.000Z'' \<noteq> mail ''18c5a1'' ''1970-01-01T00:00:00.000Z''"
    by (simp add: mail_def)
  show ?thesis
    using ttl differ
    by (simp add: read_list_after_inserts [OF _ _ ne] read_by_id_after_inserts [OF _ _ l] lst
        maxEmails_def lrange_list_0 len)
qed

text \<open>
  Claim C3. After 101 inserts the first record has left the list and its by-id entry
  has not expired. \<open>clear()\<close> then succeeds, empties the list, deletes the
  last-received entry and the by-id entry of the record still in the list, and leaves
  the by-id entry of the evicted record in place: \<open>getById\<close> still returns it.
\<close>

theorem clear_misses_evicted:
  "fst (clear ((inserts demo_runtime empty_world window_run)\<lparr>clock := 6000\<rparr>)) = Inr True
   \<and> fst (getEmails 50
        (snd (clear ((inserts demo_runtime empty_world window_run)\<lparr>clock := 6000\<rparr>)))) = Inr []
   \<and> db (snd (clear ((inserts demo_runtime empty_world window_run)\<lparr>clock := 6000\<rparr>))) statsKey = None
   \<and> fst (getEmail ''18c5a2''
        (snd (clear ((inserts demo_runtime empty_world window_run)\<lparr>clock := 6000\<rparr>)))) = Inr None
   \<and> fst (getEmail ''18c5a1''
        (snd (clear ((inserts demo_runtime empty_world window_run)\<lparr>clock := 6000\<rparr>))))
       = Inr (Some (JEmail (mail ''18c5a1'' ''1970-01-01T00:00:00.000Z'')))"
proof -
  let ?W = "(inserts demo_runtime empty_world window_run)\<lparr>clock := 6000\<rparr>"
  have ne: "window_run \<noteq> []" by (simp add: window_run_def)
  have inv: "faults ?W = []" "list_ok ?W"
    using inserts_inv [of empty_world demo_runtime window_run] by simp_all
  have lst: "the_list (inserts demo_runtime empty_world window_run)
      = replicate 100 (mail ''18c5a2'' ''1970-01-01T00:00:05.000Z'')"
    using inserts_list [of empty_world window_run demo_runtime] ne by (simp add: window_run_def)
  have l1: "latest window_run ''18c5a1'' = Some (0, mail ''18c5a1'' ''1970-01-01T00:00:00.000Z'')"
    unfolding window_run_def by (rule latest_first) simp_all
  have old: "db ?W (email_key ''18c5a1'')
      = Some (RJson (JEmail (mail ''18c5a1'' ''1970-01-01T00:00:00.000Z'')), Some (0 + ttl_ms))"
    using inserts_by_id [of empty_world demo_runtime window_run "''18c5a1''"] l1 by simp
  let ?C = "snd (clear ?W)"
  have c: "clear ?W = (Inr True, ?W\<lparr>db := (\<lambda>k.
     if k = emailsKey \<or> k = statsKey \<or> k \<in> email_key ` id' ` set (the_list ?W) then None
     else db ?W k)\<rparr>)"
    using clear_ok [OF inv] .
  have cf: "faults ?C = []" and cl: "list_ok ?C" and cc: "clock ?C = 6000"
    and ce: "the_list ?C = []"
    using inv by (simp_all add: c list_ok_def the_list_def)
  have gone: "db ?C (email_key ''18c5a2'') = None"
    by (simp add: c lst)
  have kept: "db ?C (email_key ''18c5a1'')
      = Some (RJson (JEmail (mail ''18c5a1'' ''1970-01-01T00:00:00.000Z'')), Some (0 + ttl_ms))"
    using old by (simp add: c lst)
  have ttl: "(6000::nat) < 0 + ttl_ms" by (simp add: ttl_ms_def ttl_seconds_def)
  show ?thesis
    using ttl cc
    by (simp add: getEmails_ok [OF cf cl] getEmail_absent [OF cf gone]
        getEmail_ok [OF cf kept] ce lrange_list_def) (simp add: c)
qed

text \<open>
  Claim C8. With two records stored, \<open>list(0)\<close> returns both of them rather than
  none: the range \<open>0 .. limit - 1\<close> is \<open>0 .. -1\<close>, which Redis reads as the whole
  list. \<open>list(1)\<close> returns the newest alone.
\<close>

theorem limit_zero_lists_everything:
  "fst (getEmails 0 ((inserts demo_runtime empty_world short_run)\<lparr>clock := 6000\<rparr>))
     = Inr [mail ''18c5a2'' ''1970-01-01T00:00:05.000Z'', mail ''18c5a1'' ''1970-01-01T00:00:00.000Z'']
   \<and> fst (getEmails 1 ((inserts demo_runtime empty_world short_run)\<lparr>clock := 6000\<rparr>))
     = Inr [mail ''18c5a2'' ''1970-01-01T00:00:05.000Z'']"
proof -
  have ne: "short_run \<noteq> []" by (simp add: short_run_def)
  have lst: "rev (map snd short_run)
      = [mail ''18c5a2'' ''1970-01-01T00:00:05.000Z'', mail ''18c5a1'' ''1970-01-01T00:00:00.000Z'']"
    by (simp add: short_run_def)
  show ?thesis
    by (simp add: read_list_after_inserts [OF _ _ ne] lst lrange_list_all lrange_list_0)
qed

section \<open>The placeholder for a test notification\<close>

lemma test_marker: "sublist ''[Test]'' (subject (testEmail rt n w))"
  by (simp add: testEmail_def)

lemma test_snippet:
  assumes "historyId' n = HString ''test-123''"
  shows "sublist ''test-123'' (snippet (testEmail rt n w))"
proof -
  have "snippet (testEmail rt n w) = ''Test notification with history ID: '' @ ''test-123''"
    using assms by (simp add: testEmail_def)
  then show ?thesis by (simp only: sublist_append_leftI)
qed

lemma show_nat_0: "show_nat 0 = ''0''"
  by code_simp

lemma handle_test_notification:
  assumes "json_parse rt decoded = Inr (Some n)" and "prefix ''test'' (String_of (historyId' n))"
  shows "handle_notification rt gm decoded w =
     (case addEmail rt (testEmail rt n w) w of
        (Inl e, w') \<Rightarrow> (Inl e, w') | (Inr stored, w') \<Rightarrow> (Inr (), w'))"
  using assms
  by (simp add: handle_notification_def bind_io_def return_io_def split: prod.splits sum.splits)

text \<open>
  Claim C9. When the notification's cursor is the string \<open>test-123\<close> (and the
  backend answers, the list key being as the store leaves it), the handler acknowledges
  and does exactly one insert, of the placeholder record: the record heads the list and
  is found by its id; its subject contains \<open>[Test]\<close> and its snippet contains
  \<open>test-123\<close>; the provider log is unchanged, so no provider call was made.
\<close>

theorem test_cursor_placeholder:
  assumes "request = Inr (Some msg)" and "message_data msg = Some d" and "d \<noteq> []"
    and "json_parse rt (b64utf8 rt d) = Inr (Some n)"
    and "historyId' n = HString ''test-123''"
    and "faults w = []" and "list_ok w"
  shows "POST rt gm request w = (Inr ok_response, snd (addEmail rt (testEmail rt n w) w))
       \<and> the_list (snd (POST rt gm request w)) = take 100 (testEmail rt n w # the_list w)
       \<and> fst (getEmail (id' (testEmail rt n w)) (snd (POST rt gm request w)))
            = Inr (Some (JEmail (testEmail rt n w)))
       \<and> sublist ''[Test]'' (subject (testEmail rt n w))
       \<and> sublist ''test-123'' (snippet (testEmail rt n w))
       \<and> glog (snd (POST rt gm request w)) = glog w"
proof -
  let ?e = "testEmail rt n w"
  have pre: "prefix ''test'' (String_of (historyId' n))" using assms(5) by simp
  have h: "handle_notification rt gm (b64utf8 rt d) w = (Inr (), snd (addEmail rt ?e w))"
    using addEmail_frame(7) [OF assms(6,7), of rt ?e]
    by (cases "addEmail rt ?e w") (simp add: handle_test_notification [OF assms(4) pre])
  have post: "POST rt gm request w = (Inr ok_response, snd (addEmail rt ?e w))"
    using assms(1,2,3) h
    by (simp add: POST_def try_catch_def bind_io_def return_io_def or_empty_def)
  have byid: "db (snd (addEmail rt ?e w)) (email_key (id' ?e))
      = Some (RJson (JEmail ?e), Some (clock w + ttl_ms))"
    by (simp add: addEmail_frame(6) [OF assms(6,7)])
  have "clock w < clock w + ttl_ms" by (simp add: ttl_ms_def ttl_seconds_def)
  then have get: "fst (getEmail (id' ?e) (snd (addEmail rt ?e w))) = Inr (Some (JEmail ?e))"
    using getEmail_ok [OF addEmail_frame(1) [OF assms(6,7)] byid]
    by (simp add: addEmail_frame(2) [OF assms(6,7)])
  show ?thesis
    using get test_snippet [OF assms(5)]
    by (simp add: post addEmail_frame [OF assms(6,7)] test_marker)
qed

lemma demo_test_payload:
  "json_parse demo_runtime (b64utf8 demo_runtime
      ''eyJlbWFpbEFkZHJlc3MiOiJtZUBleGFtcGxlLmNvbSIsImhpc3RvcnlJZCI6InRlc3QtMTIzIn0='')
   = Inr (Some \<lparr> emailAddress = ''me@example.com'', historyId' = HString ''test-123'' \<rparr>)"
  by (simp add: demo_runtime_def long_payload_neq)

theorem test_cursor_placeholder_witness:
  "json_parse demo_runtime (b64utf8 demo_runtime
      ''eyJlbWFpbEFkZHJlc3MiOiJtZUBleGFtcGxlLmNvbSIsImhpc3RvcnlJZCI6InRlc3QtMTIzIn0='')
     = Inr (Some \<lparr> emailAddress = ''me@example.com'', historyId' = HString ''test-123'' \<rparr>)
   \<and> fst (POST demo_runtime flaky_gmail
        (Inr (Some \<lparr> message_data =
            Some ''eyJlbWFpbEFkZHJlc3MiOiJtZUBleGFtcGxlLmNvbSIsImhpc3RvcnlJZCI6InRlc3QtMTIzIn0='',
          subscription = ''projects/demo/subscriptions/gmail-webhook-prod'' \<rparr>)) empty_world)
       = Inr ok_response
   \<and> the_list (snd (POST demo_runtime flaky_gmail
        (Inr (Some \<lparr> message_data =
            Some ''eyJlbWFpbEFkZHJlc3MiOiJtZUBleGFtcGxlLmNvbSIsImhpc3RvcnlJZCI6InRlc3QtMTIzIn0='',
          subscription = ''projects/demo/subscriptions/gmail-webhook-prod'' \<rparr>)) empty_world))
       = [\<lparr> id' = ''test-0'', threadId = ''test'', subject = ''[Test] Pub/Sub Notification Test'',
            from' = ''pubsub@test.com'', to' = ''me@example.com'',
            date = ''1970-01-01T00:00:00.000Z'',
            snippet = ''Test notification with history ID: test-123'',
            body = Some ''This is a test notification from Pub/Sub. Real emails will show full content.'',
            receivedAt = ''1970-01-01T00:00:00.000Z'', historyId = HString ''test-123'' \<rparr>]
   \<and> glog (snd (POST demo_runtime flaky_gmail
        (Inr (Some \<lparr> message_data =
            Some ''eyJlbWFpbEFkZHJlc3MiOiJtZUBleGFtcGxlLmNvbSIsImhpc3RvcnlJZCI6InRlc3QtMTIzIn0='',
          subscription = ''projects/demo/subscriptions/gmail-webhook-prod'' \<rparr>)) empty_world)) = []"
proof -
  let ?d = "''eyJlbWFpbEFkZHJlc3MiOiJtZUBleGFtcGxlLmNvbSIsImhpc3RvcnlJZCI6InRlc3QtMTIzIn0=''"
  let ?msg = "\<lparr> message_data = Some ?d,
                subscription = ''projects/demo/subscriptions/gmail-webhook-prod'' \<rparr>"
  let ?n = "\<lparr> emailAddress = ''me@example.com'', historyId' = HString ''test-123'' \<rparr>"
  have e: "testEmail demo_runtime ?n empty_world =
      \<lparr> id' = ''test-0'', threadId = ''test'', subject = ''[Test] Pub/Sub Notification Test'',
            from' = ''pubsub@test.com'', to' = ''me@example.com'',
            date = ''1970-01-01T00:00:00.000Z'',
            snippet = ''Test notification with history ID: test-123'',
            body = Some ''This is a test notification from Pub/Sub. Real emails will show full content.'',
            receivedAt = ''1970-01-01T00:00:00.000Z'', historyId = HString ''test-123'' \<rparr>"
    by (simp add: testEmail_def empty_world_def demo_runtime_def show_nat_0)
  have g: "glog empty_world = []" by (simp add: empty_world_def)
  show ?thesis
    using test_cursor_placeholder [where request = "Inr (Some ?msg)" and msg = ?msg and d = ?d
        and rt = demo_runtime and n = ?n and w = empty_world and gm = flaky_gmail]
      demo_test_payload
    by (simp add: e g addEmail_frame)
qed

section \<open>Provider failures during reconciliation\<close>

lemma got_append: "got (xs @ ys) = got xs @ got ys"
  by (induction xs rule: got.induct) simp_all

lemma ran_refl: "ran w [] None w"
  by (simp add: ran_def)

lemma ran_trans:
  assumes "ran w cs None w'" and "ran w' ds x w''"
  shows "ran w (cs @ ds) x w''"
  using assms
  by (cases "ds = []") (auto simp add: ran_def butlast_append split: option.splits)

lemma get_ran:
  assumes "gmail_messages_get gm i w = (r, w')"
  shows "ran w [CallMessagesGet i r] (case r of Inl e \<Rightarrow> Some e | Inr m \<Rightarrow> None) w'"
  using assms by (auto simp add: gmail_messages_get_def ran_def Let_def split: sum.splits)

lemma fetch_added_ran:
  "fetch_added rt gm as emails w = (x, emails', w') \<Longrightarrow>
   \<exists>cs. ran w cs x w' \<and> emails' = emails @ map (extractEmailDetails rt) (got cs)"
proof (induction as arbitrary: emails w)
  case Nil
  then have "x = None" "emails' = emails" "w' = w" by simp_all
  then show ?case by (intro exI [of _ "[]"]) (simp add: ran_refl)
next
  case (Cons a as)
  show ?case
  proof (cases "truthy a")
    case False
    then show ?thesis using Cons by simp
  next
    case True
    obtain r w1 where g: "gmail_messages_get gm (or_empty a) w = (r, w1)"
      by (cases "gmail_messages_get gm (or_empty a) w")
    note step = get_ran [OF g]
    show ?thesis
    proof (cases r)
      case (Inl e)
      then have "x = Some e" "emails' = emails" "w' = w1"
        using Cons.prems True g by simp_all
      then show ?thesis using step Inl by (intro exI [of _ "[CallMessagesGet (or_empty a) r]"]) simp
    next
      case (Inr m)
      then have "fetch_added rt gm as (emails @ [extractEmailDetails rt m]) w1 = (x, emails', w')"
        using Cons.prems True g by simp
      then obtain cs where cs: "ran w1 cs x w'"
          "emails' = (emails @ [extractEmailDetails rt m]) @ map (extractEmailDetails rt) (got cs)"
        using Cons.IH by blast
      have "ran w ([CallMessagesGet (or_empty a) r] @ cs) x w'"
        using step Inr cs(1) by (intro ran_trans [where w' = w1]) simp_all
      then show ?thesis using cs(2) Inr
        by (intro exI [of _ "[CallMessagesGet (or_empty a) r] @ cs"]) simp
    qed
  qed
qed

lemma fetch_history_ran:
  "fetch_history rt gm rs emails w = (x, emails', w') \<Longrightarrow>
   \<exists>cs. ran w cs x w' \<and> emails' = emails @ map (extractEmailDetails rt) (got cs)"
proof (induction rs arbitrary: emails w)
  case Nil
  then have "x = None" "emails' = emails" "w' = w" by simp_all
  then show ?case by (intro exI [of _ "[]"]) (simp add: ran_refl)
next
  case (Cons r rs)
  show ?case
  proof (cases r)
    case None
    then show ?thesis using Cons by simp
  next
    case (Some added)
    obtain y es w1 where a: "fetch_added rt gm added emails w = (y, es, w1)"
      by (cases "fetch_added rt gm added emails w") auto
    then obtain cs where cs: "ran w cs y w1" "es = emails @ map (extractEmailDetails rt) (got cs)"
      using fetch_added_ran by blast
    show ?thesis
    proof (cases y)
      case (Some e)
      then have "x = Some e" "emails' = es" "w' = w1"
        using Cons.prems \<open>r = Some added\<close> a by simp_all
      then show ?thesis using cs Some by auto
    next
      case None
      then have "fetch_history rt gm rs es w1 = (x, emails', w')"
        using Cons.prems \<open>r = Some added\<close> a by simp
      then obtain ds where ds: "ran w1 ds x w'"
          "emails' = es @ map (extractEmailDetails rt) (got ds)"
        using Cons.IH by blast
      have "ran w (cs @ ds) x w'" using cs(1) None ds(1) by (auto intro: ran_trans)
      then show ?thesis using cs(2) ds(2) by (intro exI [of _ "cs @ ds"]) (simp add: got_append)
    qed
  qed
qed

lemma fetch_latest_ran:
  "fetch_latest rt gm w = (x, emails', w') \<Longrightarrow>
   \<exists>cs. ran w cs x w' \<and> emails' = map (extractEmailDetails rt) (got cs)"
proof -
  assume a: "fetch_latest rt gm w = (x, emails', w')"
  obtain r w1 where l: "gmail_messages_list gm w = (r, w1)"
    by (cases "gmail_messages_list gm w")
  have step: "ran w [CallMessagesList r] (case r of Inl e \<Rightarrow> Some e | Inr m \<Rightarrow> None) w1"
    using l by (auto simp add: gmail_messages_list_def ran_def Let_def split: sum.splits)
  show ?thesis
  proof (cases r)
    case (Inl e)
    then have "x = Some e" "emails' = []" "w' = w1" using a l by (simp_all add: fetch_latest_def)
    then show ?thesis using step Inl by (intro exI [of _ "[CallMessagesList r]"]) simp
  next
    case (Inr messages)
    show ?thesis
    proof (cases "\<exists>first others. messages = Some (first # others) \<and> truthy first")
      case False
      then have "x = None" "emails' = []" "w' = w1"
        using a l Inr by (auto simp add: fetch_latest_def split: option.splits list.splits)
      then show ?thesis using step Inr by (intro exI [of _ "[CallMessagesList r]"]) simp
    next
      case True
      then obtain first others where m: "messages = Some (first # others)" "truthy first"
        by blast
      obtain r2 w2 where g: "gmail_messages_get gm (or_empty first) w1 = (r2, w2)"
        by (cases "gmail_messages_get gm (or_empty first) w1")
      have both: "ran w ([CallMessagesList r] @ [CallMessagesGet (or_empty first) r2])
          (case r2 of Inl e \<Rightarrow> Some e | Inr m \<Rightarrow> None) w2"
        using step Inr get_ran [OF g] by (intro ran_trans [where w' = w1]) simp_all
      show ?thesis
      proof (cases r2)
        case (Inl e)
        then have "x = Some e" "emails' = []" "w' = w2"
          using a l Inr m g by (simp_all add: fetch_latest_def)
        then show ?thesis using both Inl Inr
          by (intro exI [of _ "[CallMessagesList r] @ [CallMessagesGet (or_empty first) r2]"]) simp
      next
        case (Inr message)
        then have "x = None" "emails' = [extractEmailDetails rt message]" "w' = w2"
          using a l \<open>r = Inr messages\<close> m g by (simp_all add: fetch_latest_def)
        then show ?thesis using both Inr \<open>r = Inr messages\<close>
          by (intro exI [of _ "[CallMessagesList r] @ [CallMessagesGet (or_empty first) r2]"]) simp
      qed
    qed
  qed
qed

lemma fetch_try_ran:
  "fetch_try rt gm hid w = (x, emails, w') \<Longrightarrow>
   \<exists>cs. ran w cs x w' \<and> emails = map (extractEmailDetails rt) (got cs)"
proof -
  assume a: "fetch_try rt gm hid w = (x, emails, w')"
  show ?thesis
  proof (cases "all_digits (String_of hid)")
    case False
    then have "x = None" "emails = []" "w' = w" using a by (simp_all add: fetch_try_def)
    then show ?thesis using ran_refl by (intro exI [of _ "[]"]) simp
  next
    case True
    obtain r w1 where h: "gmail_history_list gm (String_of hid) w = (r, w1)"
      by (cases "gmail_history_list gm (String_of hid) w")
    have step: "ran w [CallHistoryList (String_of hid) r]
        (case r of Inl e \<Rightarrow> Some e | Inr m \<Rightarrow> None) w1"
      using h by (auto simp add: gmail_history_list_def ran_def Let_def split: sum.splits)
    show ?thesis
    proof (cases r)
      case (Inl e)
      then have "x = Some e" "emails = []" "w' = w1" using a h True by (simp_all add: fetch_try_def)
      then show ?thesis using step Inl
        by (intro exI [of _ "[CallHistoryList (String_of hid) r]"]) simp
    next
      case (Inr history)
      have "\<exists>ds. ran w1 ds x w' \<and> emails = map (extractEmailDetails rt) (got ds)"
      proof (cases "history = None \<or> history = Some []")
        case True
        then have "fetch_latest rt gm w1 = (x, emails, w')"
          using a h Inr \<open>all_digits (String_of hid)\<close> by (auto simp add: fetch_try_def)
        then show ?thesis by (rule fetch_latest_ran)
      next
        case False
        then obtain rs where "history = Some rs" "rs \<noteq> []" by auto
        then have "fetch_history rt gm rs [] w1 = (x, emails, w')"
          using a h Inr \<open>all_digits (String_of hid)\<close>
          by (auto simp add: fetch_try_def split: list.splits)
        then show ?thesis using fetch_history_ran [of rt gm rs "[]" w1 x emails w'] by simp
      qed
      then obtain ds where ds: "ran w1 ds x w'" "emails = map (extractEmailDetails rt) (got ds)"
        by blast
      have "ran w ([CallHistoryList (String_of hid) r] @ ds) x w'"
        using step Inr ds(1) by (intro ran_trans [where w' = w1]) simp_all
      then show ?thesis using ds(2)
        by (intro exI [of _ "[CallHistoryList (String_of hid) r] @ ds"]) simp
    qed
  qed
qed

lemma ran_new_calls: "ran w cs x w' \<Longrightarrow> new_calls w w' = cs"
  by (simp add: ran_def new_calls_def)

lemma ran_frame: "ran w cs x w' \<Longrightarrow> db w' = db w \<and> clock w' = clock w \<and> faults w' = faults w"
  by (simp add: ran_def)

lemma storedEmail_clock:
  "clock w1 = clock w \<Longrightarrow> storedEmail rt hid e w1 = storedEmail rt hid e w"
  by (simp add: storedEmail_def)

lemma store_emails_inserts:
  assumes "faults w = []" and "list_ok w"
  shows "store_emails rt hid emails w =
     (Inr (), inserts rt w (map (\<lambda>email. (clock w, storedEmail rt hid email w)) emails))"
  using assms
proof (induction emails arbitrary: w)
  case Nil
  then show ?case by simp
next
  case (Cons email rest)
  let ?w1 = "snd (addEmail rt (storedEmail rt hid email w) w)"
  have f: "faults ?w1 = []" "list_ok ?w1" "clock ?w1 = clock w"
    using addEmail_frame [OF Cons.prems] by simp_all
  have same: "storedEmail rt hid e ?w1 = storedEmail rt hid e w" for e
    using f(3) by (rule storedEmail_clock)
  have one: "insert_at rt w (clock w, storedEmail rt hid email w) = ?w1"
    by (simp add: insert_at_def)
  have "store_emails rt hid (email # rest) w = store_emails rt hid rest ?w1"
    using addEmail_frame(7) [OF Cons.prems, of rt "storedEmail rt hid email w"]
    by (cases "addEmail rt (storedEmail rt hid email w) w") simp
  also have "\<dots> = (Inr (), inserts rt ?w1
      (map (\<lambda>email. (clock ?w1, storedEmail rt hid email ?w1)) rest))"
    using Cons.IH [OF f(1,2)] .
  finally show ?case by (simp add: inserts_def one same f(3))
qed

lemma fetchNewEmails_ran:
  "\<exists>emails w' cs x. fetchNewEmails rt gm hid w = (Inr emails, w') \<and> ran w cs x w' \<and>
     emails = map (extractEmailDetails rt) (got cs)"
proof -
  obtain x emails w' where t: "fetch_try rt gm hid w = (x, emails, w')"
    by (cases "fetch_try rt gm hid w") auto
  then obtain cs where "ran w cs x w'" "emails = map (extractEmailDetails rt) (got cs)"
    using fetch_try_ran by blast
  then show ?thesis using t by (auto simp add: fetchNewEmails_def)
qed

lemma post_stores_fetched:
  assumes "request = Inr (Some msg)" and "truthy (message_data msg)"
    and "json_parse rt (b64utf8 rt (or_empty (message_data msg))) = Inr (Some n)"
    and "\<not> prefix ''test'' (String_of (historyId' n))"
    and "faults w = []" and "list_ok w"
    and "fetchNewEmails rt gm (historyId' n) w = (Inr emails, w')"
  shows "POST rt gm request w =
     (Inr ok_response,
      inserts rt w' (map (\<lambda>email. (clock w, storedEmail rt (historyId' n) email w)) emails))"
proof -
  obtain es w1 cs x where r: "fetchNewEmails rt gm (historyId' n) w = (Inr es, w1)" "ran w cs x w1"
    using fetchNewEmails_ran [of rt gm "historyId' n" w] by blast
  then have fr: "db w' = db w" "clock w' = clock w" "faults w' = faults w"
    using assms(7) ran_frame [of w cs x w1] by simp_all
  then have ok: "faults w' = []" "list_ok w'"
    using assms(5,6) by (simp_all add: list_ok_def)
  have same: "(\<lambda>email. (clock w', storedEmail rt (historyId' n) email w'))
      = (\<lambda>email. (clock w, storedEmail rt (historyId' n) email w))"
    using storedEmail_clock [OF fr(2)] fr(2) by (simp add: fun_eq_iff)
  have st: "store_emails rt (historyId' n) emails w' =
      (Inr (), inserts rt w' (map (\<lambda>email. (clock w, storedEmail rt (historyId' n) email w)) emails))"
    using store_emails_inserts [OF ok, of rt "historyId' n" emails] by (simp add: same)
  have h: "handle_notification rt gm (b64utf8 rt (or_empty (message_data msg))) w =
      (Inr (), inserts rt w' (map (\<lambda>email. (clock w, storedEmail rt (historyId' n) email w)) emails))"
    using assms(3,4,7) st
    by (cases emails) (simp_all add: handle_notification_def bind_io_def return_io_def)
  show ?thesis
    using assms(1,2) h by (simp add: POST_def try_catch_def bind_io_def return_io_def)
qed

text \<open>
  Claim C4, amended. For every cursor \<open>fetchNewEmails\<close> returns, without raising,
  exactly the records extracted from the messages it fetched, in the order fetched; a
  provider call that fails is the last call it makes. So after a failure the result is
  what was extracted before it: empty when the history query, the fallback listing or
  the first fetch fails, not empty when a later fetch fails. Exactly the returned
  records are stored for the notification (the backend answering).
\<close>

theorem reconcile_returns_what_it_fetched:
  "\<exists>emails w'. fetchNewEmails rt gm hid w = (Inr emails, w')
     \<and> emails = map (extractEmailDetails rt) (got (new_calls w w'))
     \<and> list_all (\<lambda>c. \<not> call_failed c) (butlast (new_calls w w'))
     \<and> (request = Inr (Some msg) \<and> truthy (message_data msg) \<and>
         json_parse rt (b64utf8 rt (or_empty (message_data msg))) = Inr (Some n) \<and>
         historyId' n = hid \<and> \<not> prefix ''test'' (String_of hid) \<and>
         faults w = [] \<and> list_ok w \<longrightarrow>
         POST rt gm request w =
           (Inr ok_response,
            inserts rt w' (map (\<lambda>email. (clock w, storedEmail rt hid email w)) emails)))"
proof -
  obtain emails w' cs x where r: "fetchNewEmails rt gm hid w = (Inr emails, w')" "ran w cs x w'"
      "emails = map (extractEmailDetails rt) (got cs)"
    using fetchNewEmails_ran [of rt gm hid w] by blast
  have nc: "new_calls w w' = cs" using r(2) by (rule ran_new_calls)
  have "list_all (\<lambda>c. \<not> call_failed c) (butlast cs)" using r(2) by (simp add: ran_def)
  moreover have "request = Inr (Some msg) \<and> truthy (message_data msg) \<and>
         json_parse rt (b64utf8 rt (or_empty (message_data msg))) = Inr (Some n) \<and>
         historyId' n = hid \<and> \<not> prefix ''test'' (String_of hid) \<and>
         faults w = [] \<and> list_ok w \<longrightarrow>
         POST rt gm request w =
           (Inr ok_response,
            inserts rt w' (map (\<lambda>email. (clock w, storedEmail rt hid email w)) emails))"
    using post_stores_fetched [of request msg rt n w gm emails w'] r(1) by auto
  ultimately show ?thesis using r(1,3) nc by auto
qed

lemma flaky_fetch:
  "fetchNewEmails demo_runtime flaky_gmail (HNumber ''1001'') empty_world =
     (Inr [extractEmailDetails demo_runtime
             (example_message ''Subject'' (Some ''SGVsbG8='') ''text/plain'' None)],
      empty_world\<lparr>glog :=
        [CallMessagesGet ''18c5a2'' (Inl ProviderError),
         CallMessagesGet ''18c5a1''
           (Inr (example_message ''Subject'' (Some ''SGVsbG8='') ''text/plain'' None)),
         CallHistoryList ''1001'' (Inr (Some [Some [Some ''18c5a1'', Some ''18c5a2'']]))]\<rparr>)"
proof -
  have d: "all_digits ''1001''" by (simp add: all_digits_def is_digit_def)
  show ?thesis
    using d
    by (simp add: fetchNewEmails_def fetch_try_def gmail_history_list_def gmail_messages_get_def
        flaky_gmail_def empty_world_def or_empty_def Let_def)
qed

lemma demo_real_payload:
  "json_parse demo_runtime (b64utf8 demo_runtime
      ''eyJlbWFpbEFkZHJlc3MiOiJtZUBleGFtcGxlLmNvbSIsImhpc3RvcnlJZCI6MTAwMX0='')
   = Inr (Some \<lparr> emailAddress = ''me@example.com'', historyId' = HNumber ''1001'' \<rparr>)"
  by (simp add: demo_runtime_def long_payload_neq)

theorem reconcile_returns_what_it_fetched_witness:
  "json_parse demo_runtime (b64utf8 demo_runtime
      ''eyJlbWFpbEFkZHJlc3MiOiJtZUBleGFtcGxlLmNvbSIsImhpc3RvcnlJZCI6MTAwMX0='')
     = Inr (Some \<lparr> emailAddress = ''me@example.com'', historyId' = HNumber ''1001'' \<rparr>)
   \<and> (\<exists>emails w'.
         fetchNewEmails demo_runtime flaky_gmail (HNumber ''1001'') empty_world = (Inr emails, w')
       \<and> emails = map (extractEmailDetails demo_runtime) (got (new_calls empty_world w'))
       \<and> list_all (\<lambda>c. \<not> call_failed c) (butlast (new_calls empty_world w'))
       \<and> POST demo_runtime flaky_gmail real_request empty_world =
           (Inr ok_response,
            inserts demo_runtime w'
              (map (\<lambda>email. (clock empty_world,
                               storedEmail demo_runtime (HNumber ''1001'') email empty_world))
                 emails)))"
proof -
  let ?msg = "\<lparr> message_data =
            Some ''eyJlbWFpbEFkZHJlc3MiOiJtZUBleGFtcGxlLmNvbSIsImhpc3RvcnlJZCI6MTAwMX0='',
          subscription = ''projects/demo/subscriptions/gmail-webhook-prod'' \<rparr>"
  let ?n = "\<lparr> emailAddress = ''me@example.com'', historyId' = HNumber ''1001'' \<rparr>"
  have hyp: "real_request = Inr (Some ?msg) \<and> truthy (message_data ?msg) \<and>
      json_parse demo_runtime (b64utf8 demo_runtime (or_empty (message_data ?msg))) = Inr (Some ?n) \<and>
      historyId' ?n = HNumber ''1001'' \<and> \<not> prefix ''test'' (String_of (HNumber ''1001'')) \<and>
      faults empty_world = [] \<and> list_ok empty_world"
    using demo_real_payload by (simp add: real_request_def or_empty_def)
  show ?thesis
    using reconcile_returns_what_it_fetched [where rt = demo_runtime and gm = flaky_gmail
        and hid = "HNumber ''1001''" and w = empty_world and request = real_request
        and msg = ?msg and n = ?n] hyp demo_real_payload
    by blast
qed

text \<open>
  The claim as stated fails when the failing call is not the first fetch: with two
  added messages of which the second cannot be fetched, the result holds the first
  message's record, and that record is stored.
\<close>

theorem partial_fetch_counterexample:
  "fst (fetchNewEmails demo_runtime flaky_gmail (HNumber ''1001'') empty_world)
     = Inr [extractEmailDetails demo_runtime
              (example_message ''Subject'' (Some ''SGVsbG8='') ''text/plain'' None)]
   \<and> hd (glog (snd (fetchNewEmails demo_runtime flaky_gmail (HNumber ''1001'') empty_world)))
     = CallMessagesGet ''18c5a2'' (Inl ProviderError)
   \<and> the_list (snd (POST demo_runtime flaky_gmail real_request empty_world))
     = [storedEmail demo_runtime (HNumber ''1001'')
          (extractEmailDetails demo_runtime
             (example_message ''Subject'' (Some ''SGVsbG8='') ''text/plain'' None)) empty_world]"
proof -
  let ?msg = "\<lparr> message_data =
            Some ''eyJlbWFpbEFkZHJlc3MiOiJtZUBleGFtcGxlLmNvbSIsImhpc3RvcnlJZCI6MTAwMX0='',
          subscription = ''projects/demo/subscriptions/gmail-webhook-prod'' \<rparr>"
  let ?n = "\<lparr> emailAddress = ''me@example.com'', historyId' = HNumber ''1001'' \<rparr>"
  let ?W = "empty_world\<lparr>glog :=
        [CallMessagesGet ''18c5a2'' (Inl ProviderError),
         CallMessagesGet ''18c5a1''
           (Inr (example_message ''Subject'' (Some ''SGVsbG8='') ''text/plain'' None)),
         CallHistoryList ''1001'' (Inr (Some [Some [Some ''18c5a1'', Some ''18c5a2'']]))]\<rparr>"
  have ok: "faults ?W = []" "list_ok ?W" "the_list ?W = []"
    by (simp_all add: empty_world_def list_ok_def the_list_def)
  have post: "POST demo_runtime flaky_gmail real_request empty_world =
     (Inr ok_response,
      inserts demo_runtime ?W
        (map (\<lambda>email. (clock empty_world,
                         storedEmail demo_runtime (HNumber ''1001'') email empty_world))
           [extractEmailDetails demo_runtime
              (example_message ''Subject'' (Some ''SGVsbG8='') ''text/plain'' None)]))"
    using post_stores_fetched [where request = real_request and msg = ?msg and rt = demo_runtime
        and n = ?n and w = empty_world and gm = flaky_gmail] demo_real_payload flaky_fetch
    by (simp add: real_request_def or_empty_def)
  show ?thesis
    by (simp add: flaky_fetch post inserts_def insert_at_frame(4) [OF ok(1,2)] ok(3))
qed

section \<open>Further properties of the store and the pipeline\<close>

lemma try_catch_total: "\<exists>x w'. try_catch m (\<lambda>error. return_io c) w = (Inr x, w')"
  by (cases "m w") (auto simp add: try_catch_def return_io_def split: sum.splits)

text \<open>
  X1. No operation of the store raises: each of \<open>addEmail\<close>, \<open>getEmails\<close>,
  \<open>getEmail\<close>, \<open>getStats\<close> and \<open>clear\<close> returns a value, whatever the backend
  does.
\<close>

theorem store_never_raises:
  "(\<exists>b w'. addEmail rt e w = (Inr b, w'))
   \<and> (\<exists>es w'. getEmails limit w = (Inr es, w'))
   \<and> (\<exists>r w'. getEmail i w = (Inr r, w'))
   \<and> (\<exists>s w'. getStats w = (Inr s, w'))
   \<and> (\<exists>b w'. clear w = (Inr b, w'))"
  unfolding addEmail_def getEmails_def getEmail_def getStats_def clear_def
  by (intro conjI try_catch_total)

text \<open>
  X2. For a limit of at least one, \<open>list(limit)\<close> returns the first
  \<open>min(limit, length)\<close> entries of the ordered sequence (the backend answering).
\<close>

theorem list_positive_limit:
  assumes "faults w = []" and "list_ok w" and "1 \<le> limit"
  shows "fst (getEmails limit w) = Inr (take (nat limit) (the_list w))
       \<and> length (take (nat limit) (the_list w)) = min (nat limit) (length (the_list w))"
proof -
  have "nat (limit - 1) + 1 = nat limit" using assms(3) by simp
  then show ?thesis using assms(3) by (simp add: getEmails_ok [OF assms(1,2)] lrange_list_0)
qed

lemma short_run_world:
  "faults (inserts demo_runtime empty_world short_run) = []"
  "list_ok (inserts demo_runtime empty_world short_run)"
  "the_list (inserts demo_runtime empty_world short_run)
     = [mail ''18c5a2'' ''1970-01-01T00:00:05.000Z'', mail ''18c5a1'' ''1970-01-01T00:00:00.000Z'']"
proof -
  have ne: "short_run \<noteq> []" by (simp add: short_run_def)
  show "faults (inserts demo_runtime empty_world short_run) = []"
    and "list_ok (inserts demo_runtime empty_world short_run)"
    using inserts_inv [of empty_world demo_runtime short_run] by simp_all
  show "the_list (inserts demo_runtime empty_world short_run)
     = [mail ''18c5a2'' ''1970-01-01T00:00:05.000Z'', mail ''18c5a1'' ''1970-01-01T00:00:00.000Z'']"
    using inserts_list [of empty_world short_run demo_runtime] ne by (simp add: short_run_def)
qed

theorem list_positive_limit_witness:
  "fst (getEmails 5 (inserts demo_runtime empty_world short_run))
     = Inr [mail ''18c5a2'' ''1970-01-01T00:00:05.000Z'', mail ''18c5a1'' ''1970-01-01T00:00:00.000Z'']
   \<and> fst (getEmails 5 empty_world) = Inr []"
  using list_positive_limit [OF short_run_world(1,2), of 5]
    list_positive_limit [of empty_world 5]
  by (simp add: short_run_world(3))

lemma getStats_empty:
  assumes "faults w = []" and "db w emailsKey = None" and "db w statsKey = None"
  shows "getStats w = (Inr \<lparr> totalEmails = 0, newestEmail = None, oldestEmail = None,
                            lastReceived = None \<rparr>, w)"
  using assms
  by (simp add: getStats_def try_catch_def bind_io_def return_io_def redis_llen_def
      redis_get_def redis_lrange_def redis_call_def live_def first_date_def)

text \<open>
  X3. After \<open>clear()\<close>, \<open>list\<close> with any limit returns the empty sequence and
  \<open>stats()\<close> reports no records, no dates and no last-received time (the backend
  answering).
\<close>

theorem clear_then_empty:
  assumes "faults w = []" and "list_ok w"
  shows "fst (clear w) = Inr True
       \<and> fst (getEmails limit (snd (clear w))) = Inr []
       \<and> fst (getStats (snd (clear w)))
           = Inr \<lparr> totalEmails = 0, newestEmail = None, oldestEmail = None, lastReceived = None \<rparr>"
proof -
  let ?C = "snd (clear w)"
  have c: "faults ?C = []" "db ?C emailsKey = None" "db ?C statsKey = None"
    using assms(1) by (simp_all add: clear_ok [OF assms])
  then have ok: "list_ok ?C" "the_list ?C = []" by (simp_all add: list_ok_def the_list_def)
  have t: "fst (clear w) = Inr True" by (simp add: clear_ok [OF assms])
  have l: "fst (getEmails limit ?C) = Inr []"
    by (simp add: getEmails_ok [OF c(1) ok(1)] ok(2) lrange_list_def)
  have s: "fst (getStats ?C)
      = Inr \<lparr> totalEmails = 0, newestEmail = None, oldestEmail = None, lastReceived = None \<rparr>"
    by (simp add: getStats_empty [OF c])
  show ?thesis using t l s by simp
qed

theorem clear_then_empty_witness:
  "fst (clear (inserts demo_runtime empty_world short_run)) = Inr True
   \<and> fst (getEmails 50 (snd (clear (inserts demo_runtime empty_world short_run)))) = Inr []
   \<and> fst (getStats (snd (clear (inserts demo_runtime empty_world short_run))))
       = Inr \<lparr> totalEmails = 0, newestEmail = None, oldestEmail = None, lastReceived = None \<rparr>"
  using clear_then_empty [OF short_run_world(1,2), of 50] by simp

text \<open>
  X4. \<open>insert\<close> does not deduplicate: inserting the same record twice puts two
  entries at the head of the ordered sequence (the backend answering).
\<close>

theorem insert_does_not_deduplicate:
  assumes "faults w = []" and "list_ok w"
  shows "the_list (snd (addEmail rt e (snd (addEmail rt e w)))) = take 100 (e # e # the_list w)"
proof -
  let ?w1 = "snd (addEmail rt e w)"
  have f: "faults ?w1 = []" "list_ok ?w1" "the_list ?w1 = take 100 (e # the_list w)"
    using addEmail_frame [OF assms] by simp_all
  have "the_list (snd (addEmail rt e ?w1)) = take 100 (e # the_list ?w1)"
    using addEmail_frame(5) [OF f(1,2)] .
  also have "\<dots> = take 100 ([e] @ take 100 (e # the_list w))" by (simp add: f(3))
  also have "\<dots> = take 100 ([e] @ (e # the_list w))" by (rule take_append_take)
  finally show ?thesis by simp
qed

theorem insert_does_not_deduplicate_witness:
  "the_list (snd (addEmail demo_runtime (mail ''18c5a1'' ''1970-01-01T00:00:00.000Z'')
      (snd (addEmail demo_runtime (mail ''18c5a1'' ''1970-01-01T00:00:00.000Z'') empty_world))))
   = [mail ''18c5a1'' ''1970-01-01T00:00:00.000Z'', mail ''18c5a1'' ''1970-01-01T00:00:00.000Z'']"
  using insert_does_not_deduplicate [of empty_world demo_runtime
      "mail ''18c5a1'' ''1970-01-01T00:00:00.000Z''"]
  by simp

text \<open>
  X5. When the history query for a numeric cursor returns no entries and the listing of
  unread messages returns a message that can be fetched, reconciliation returns that one
  message's record, and the handler stores exactly one record, whose \<open>historyId\<close> is
  the notification's cursor and whose body is the extracted body cut to 1000 characters
  (the backend answering).
\<close>

theorem fallback_single_record:
  assumes "all_digits (String_of hid)"
    and "history_list gm (glog w) (String_of hid) = Inr h" and "h = None \<or> h = Some []"
    and "messages_list gm (CallHistoryList (String_of hid) (Inr h) # glog w)
           = Inr (Some (Some mid # others))"
    and "mid \<noteq> []"
    and "messages_get gm (CallMessagesList (Inr (Some (Some mid # others)))
           # CallHistoryList (String_of hid) (Inr h) # glog w) mid = Inr m"
    and "request = Inr (Some msg)" and "truthy (message_data msg)"
    and "json_parse rt (b64utf8 rt (or_empty (message_data msg))) = Inr (Some n)"
    and "historyId' n = hid" and "faults w = []" and "list_ok w"
  shows "fst (fetchNewEmails rt gm hid w) = Inr [extractEmailDetails rt m]
       \<and> the_list (snd (POST rt gm request w))
           = take 100 (storedEmail rt hid (extractEmailDetails rt m) w # the_list w)
       \<and> historyId (storedEmail rt hid (extractEmailDetails rt m) w) = hid
       \<and> body (storedEmail rt hid (extractEmailDetails rt m) w)
           = Some (take 1000 (extract_body rt m))"
proof -
  let ?w' = "w\<lparr>glog := CallMessagesGet mid (Inr m)
      # CallMessagesList (Inr (Some (Some mid # others)))
      # CallHistoryList (String_of hid) (Inr h) # glog w\<rparr>"
  have f: "fetchNewEmails rt gm hid w = (Inr [extractEmailDetails rt m], ?w')"
    using assms(1-6)
    by (auto simp add: fetchNewEmails_def fetch_try_def fetch_latest_def gmail_history_list_def
        gmail_messages_list_def gmail_messages_get_def or_empty_def Let_def)
  have nt: "\<not> prefix ''test'' (String_of (historyId' n))"
  proof
    assume "prefix ''test'' (String_of (historyId' n))"
    then obtain r where "String_of hid = ''test'' @ r" using assms(10) by (auto simp add: prefix_def)
    then show False using assms(1) by (simp add: all_digits_def is_digit_def)
  qed
  have ok: "faults ?w' = []" "list_ok ?w'" "the_list ?w' = the_list w"
    using assms(11,12) by (simp_all add: list_ok_def the_list_def)
  have "POST rt gm request w =
     (Inr ok_response,
      inserts rt ?w' (map (\<lambda>email. (clock w, storedEmail rt (historyId' n) email w))
         [extractEmailDetails rt m]))"
    using post_stores_fetched [OF assms(7,8,9) nt assms(11,12)] f assms(10) by simp
  then have "the_list (snd (POST rt gm request w))
      = take 100 (storedEmail rt hid (extractEmailDetails rt m) w # the_list w)"
    using assms(10) by (simp add: inserts_def insert_at_frame(4) [OF ok(1,2)] ok(3))
  then show ?thesis by (simp add: f storedEmail_def body_extract)
qed

theorem fallback_single_record_witness:
  "fst (fetchNewEmails demo_runtime quiet_gmail (HNumber ''1001'') empty_world)
     = Inr [extractEmailDetails demo_runtime
              (example_message ''Subject'' None ''text/plain'' (Some ''SGVsbG8=''))]
   \<and> the_list (snd (POST demo_runtime quiet_gmail real_request empty_world))
     = [storedEmail demo_runtime (HNumber ''1001'')
          (extractEmailDetails demo_runtime
             (example_message ''Subject'' None ''text/plain'' (Some ''SGVsbG8=''))) empty_world]
   \<and> body (storedEmail demo_runtime (HNumber ''1001'')
          (extractEmailDetails demo_runtime
             (example_message ''Subject'' None ''text/plain'' (Some ''SGVsbG8=''))) empty_world)
     = Some ''Hello''"
proof -
  let ?msg = "\<lparr> message_data =
            Some ''eyJlbWFpbEFkZHJlc3MiOiJtZUBleGFtcGxlLmNvbSIsImhpc3RvcnlJZCI6MTAwMX0='',
          subscription = ''projects/demo/subscriptions/gmail-webhook-prod'' \<rparr>"
  let ?n = "\<lparr> emailAddress = ''me@example.com'', historyId' = HNumber ''1001'' \<rparr>"
  let ?m = "example_message ''Subject'' None ''text/plain'' (Some ''SGVsbG8='')"
  have d: "all_digits (String_of (HNumber ''1001''))" by (simp add: all_digits_def is_digit_def)
  have b: "extract_body demo_runtime ?m = ''Hello''"
    by (simp add: extract_body_def example_message_def truthy_def or_empty_def demo_b64)
  show ?thesis
    using fallback_single_record [where hid = "HNumber ''1001''" and gm = quiet_gmail
        and w = empty_world and h = None and mid = "''18c5a1''" and others = "[]" and m = ?m
        and request = real_request and msg = ?msg and rt = demo_runtime and n = ?n]
      d demo_real_payload
    by (simp add: quiet_gmail_def real_request_def or_empty_def b)
qed

end
